theory Spec2Isabelle
  imports Complex_Main
begin

section \<open>JavaScript values as the handlers observe them\<close>

text \<open>
  A member of a parsed JSON body (\<^verbatim>\<open>req.body.x\<close>) is absent (\<^verbatim>\<open>undefined\<close>), \<^verbatim>\<open>null\<close>,
  a boolean, a number, a string, or an array or object. The handlers of
  \<^verbatim>\<open>server.js\<close> only test such a value for truthiness, compare it with \<^verbatim>\<open>null\<close> or
  with a string, run a regular expression over it and hand it on to the database or
  the mailer. An array or object is therefore kept as \<open>JObject s\<close>, where \<open>s\<close> is the
  text \<^verbatim>\<open>String(v)\<close> that a regular expression sees. A JSON number is a rational;
  strings are lists of code units below 256.
\<close>

datatype jsval =
    JUndefined
  | JNull
  | JBool bool
  | JNum rat
  | JStr string
  | JObject string

text \<open>\<^verbatim>\<open>!v\<close> is \<open>\<not> truthy v\<close>.\<close>

fun truthy :: "jsval \<Rightarrow> bool" where
  "truthy JUndefined = False"
| "truthy JNull = False"
| "truthy (JBool b) = b"
| "truthy (JNum n) = (n \<noteq> 0)"
| "truthy (JStr s) = (s \<noteq> [])"
| "truthy (JObject s) = True"

text \<open>\<^verbatim>\<open>v == null\<close> holds of \<^verbatim>\<open>null\<close> and \<^verbatim>\<open>undefined\<close> only.\<close>

fun eq_null :: "jsval \<Rightarrow> bool" where
  "eq_null JUndefined = True"
| "eq_null JNull = True"
| "eq_null v = False"

text \<open>\<^verbatim>\<open>s.split(" ")\<close>: the pieces between the separators; the empty string gives one
  empty piece.\<close>

fun split_on :: "char \<Rightarrow> string \<Rightarrow> string list" where
  "split_on c [] = [[]]"
| "split_on c (x # xs) =
     (if x = c then [] # split_on c xs
      else (case split_on c xs of
              [] \<Rightarrow> [[x]]
            | w # ws \<Rightarrow> (x # w) # ws))"

text \<open>\<^verbatim>\<open>xs[1]\<close>: \<^verbatim>\<open>undefined\<close> (here \<open>None\<close>) when the array has fewer than two elements.\<close>

fun index1 :: "'a list \<Rightarrow> 'a option" where
  "index1 (x # y # ys) = Some y"
| "index1 xs = None"

section \<open>Responses, effects and the external collaborators\<close>

type_synonym row = "(string \<times> jsval) list"

datatype json =
    Val jsval
  | Row row
  | Rows "row list"
  | Obj "(string \<times> json) list"

datatype body = NoBody | Json json

text \<open>
  What a handler run ends in: a response with a status, or an exception that leaves
  the \<^verbatim>\<open>async\<close> handler (no \<^verbatim>\<open>try\<close> around the call), in which case this code writes
  no response.
\<close>

datatype outcome =
    Responded nat body
  | Escaped string

datatype sql =
    SELECT_PRODUCTOS
  | INSERT_PRODUCTO
  | UPDATE_PRODUCTO
  | DELETE_PRODUCTO
  | INSERT_SUSCRIPTOR
  | SELECT_SUSCRIPTORES
  | DELETE_SUSCRIPTOR
  | SELECT_NOW

text \<open>The calls a handler makes to a library or a service, in order.\<close>

datatype effect =
    BcryptCompare jsval string
  | JwtSign string
  | JwtVerify string
  | Query sql "jsval list"
  | MailSend jsval jsval jsval
  | ConsoleError string
  | ConsoleLog string

record qresult =
  rowCount :: nat
  rows :: "row list"

text \<open>
  The libraries are not part of the repository; the handlers are defined over what a
  call returns. \<open>Inl m\<close> is an exception with message \<open>m\<close>.
  \<^item> \<open>verifier\<close>: \<^verbatim>\<open>jwt.verify(token, process.env.JWT_SECRET)\<close> at the current time;
    \<open>Inr u\<close> is a payload whose member \<^verbatim>\<open>user\<close> reads as \<open>u\<close>.
  \<^item> \<open>signer\<close>: \<^verbatim>\<open>jwt.sign({ user }, process.env.JWT_SECRET, { expiresIn: "8h" })\<close>.
  \<^item> \<open>comparer\<close>: \<^verbatim>\<open>bcrypt.compare(password, adminHash)\<close>.
  \<^item> \<open>'db statement\<close>: \<^verbatim>\<open>pool.query(text, params)\<close> for one fixed statement text.
  \<^item> \<open>mailer\<close>: \<^verbatim>\<open>resend.emails.send\<close> of the contact template filled with three values.
    The call reports what the provider answered in the object it resolves to,
    \<^verbatim>\<open>{ data, error }\<close>: \<open>Inr (SendData id)\<close> is an accepted message, \<open>Inr (SendError m)\<close>
    a message that the provider refused or that did not reach it.
\<close>

datatype send_result =
    SendData string
  | SendError string

type_synonym verifier = "string \<Rightarrow> string option \<Rightarrow> nat \<Rightarrow> string + jsval"
type_synonym signer = "string \<Rightarrow> string option \<Rightarrow> nat \<Rightarrow> string + string"
type_synonym comparer = "jsval \<Rightarrow> string \<Rightarrow> string + bool"
type_synonym 'db statement = "jsval list \<Rightarrow> 'db \<Rightarrow> (string + qresult) \<times> 'db"
type_synonym mailer = "jsval \<Rightarrow> jsval \<Rightarrow> jsval \<Rightarrow> string + send_result"

text \<open>\<^verbatim>\<open>process.env\<close> and the clock (seconds), fixed while one request is handled.\<close>

record env =
  ADMIN_USER :: "string option"
  ADMIN_PASS_HASH :: "string option"
  JWT_SECRET :: "string option"
  now :: nat

record request =
  authorization :: "string option"
  body :: "string \<rightharpoonup> jsval"
  params_id :: string
  query :: "string \<rightharpoonup> string"
  user :: jsval

text \<open>\<^verbatim>\<open>req.body.k\<close>\<close>

definition field :: "request \<Rightarrow> string \<Rightarrow> jsval" where
  "field req k = (case body req k of None \<Rightarrow> JUndefined | Some v \<Rightarrow> v)"

text \<open>\<^verbatim>\<open>{ error: m }\<close>. The message texts are written in ASCII (accents and emoji of
  the source left out).\<close>

definition error_body :: "string \<Rightarrow> body" where
  "error_body m = Json (Obj [(''error'', Val (JStr m))])"

section \<open>Authentication (server.js, lines 33 to 89)\<close>

text \<open>\<^verbatim>\<open>(req.headers.authorization || "").split(" ")[1]\<close>\<close>

definition header_token :: "request \<Rightarrow> string option" where
  "header_token req =
     index1 (split_on CHR '' '' (case authorization req of None \<Rightarrow> [] | Some h \<Rightarrow> h))"

text \<open>\<^verbatim>\<open>requireAuth\<close>: \<open>Inr req'\<close> is the call of \<^verbatim>\<open>next()\<close> with \<^verbatim>\<open>req.user\<close> set.\<close>

definition requireAuth :: "verifier \<Rightarrow> env \<Rightarrow> request \<Rightarrow> (outcome + request) \<times> effect list" where
  "requireAuth verify e req =
     (case header_token req of
        None \<Rightarrow> (Inl (Responded 401 (error_body ''Token faltante'')), [])
      | Some token \<Rightarrow>
          if token = [] then (Inl (Responded 401 (error_body ''Token faltante'')), [])
          else (case verify token (JWT_SECRET e) (now e) of
                  Inr u \<Rightarrow> (Inr (req\<lparr>user := u\<rparr>), [JwtVerify token])
                | Inl err \<Rightarrow> (Inl (Responded 401 (error_body ''Token invalido'')), [JwtVerify token])))"

text \<open>\<^verbatim>\<open>app.get("/api/auth-check")\<close>\<close>

definition auth_check :: "verifier \<Rightarrow> env \<Rightarrow> request \<Rightarrow> outcome \<times> effect list" where
  "auth_check verify e req =
     (case header_token req of
        None \<Rightarrow> (Responded 401 (error_body ''Token faltante''), [])
      | Some token \<Rightarrow>
          if token = [] then (Responded 401 (error_body ''Token faltante''), [])
          else (case verify token (JWT_SECRET e) (now e) of
                  Inr u \<Rightarrow> (Responded 200 (Json (Obj [(''ok'', Val (JBool True)), (''user'', Val u)])),
                            [JwtVerify token])
                | Inl err \<Rightarrow> (Responded 401 (error_body ''Token invalido''), [JwtVerify token])))"

text \<open>\<^verbatim>\<open>app.post("/api/login")\<close>. Neither \<^verbatim>\<open>bcrypt.compare\<close> nor \<^verbatim>\<open>jwt.sign\<close> is inside a
  \<^verbatim>\<open>try\<close>: an exception of either leaves the handler.\<close>

definition login :: "comparer \<Rightarrow> signer \<Rightarrow> env \<Rightarrow> request \<Rightarrow> outcome \<times> effect list" where
  "login compare sign e req =
     (let user = field req ''user''; password = field req ''password'' in
      if \<not> truthy user \<or> \<not> truthy password
      then (Responded 400 (error_body ''Credenciales faltantes''), [])
      else (case ADMIN_USER e of
              None \<Rightarrow> (Responded 500 (error_body ''Autenticacion no configurada''), [])
            | Some adminUser \<Rightarrow>
               (case ADMIN_PASS_HASH e of
                  None \<Rightarrow> (Responded 500 (error_body ''Autenticacion no configurada''), [])
                | Some adminHash \<Rightarrow>
                    if adminUser = [] \<or> adminHash = []
                    then (Responded 500 (error_body ''Autenticacion no configurada''), [])
                    else if user \<noteq> JStr adminUser
                    then (Responded 401 (error_body ''Usuario o contrasena incorrectos''), [])
                    else (case compare password adminHash of
                            Inl err \<Rightarrow> (Escaped err, [BcryptCompare password adminHash])
                          | Inr match \<Rightarrow>
                              if \<not> match
                              then (Responded 401 (error_body ''Usuario o contrasena incorrectos''),
                                    [BcryptCompare password adminHash])
                              else (case sign adminUser (JWT_SECRET e) (now e) of
                                      Inl err \<Rightarrow>
                                        (Escaped err,
                                         [BcryptCompare password adminHash, JwtSign adminUser])
                                    | Inr token \<Rightarrow>
                                        (Responded 200 (Json (Obj [(''token'', Val (JStr token))])),
                                         [BcryptCompare password adminHash, JwtSign adminUser]))))))"

section \<open>Resource handlers (server.js, lines 91 to 278)\<close>

text \<open>The result of a handler that may touch the datastore.\<close>

record 'db result =
  outcome :: outcome
  effects :: "effect list"
  store :: 'db

text \<open>\<^verbatim>\<open>result.rows[0]\<close>\<close>

fun first_row :: "row list \<Rightarrow> json" where
  "first_row [] = Val JUndefined"
| "first_row (r # rs) = Row r"

text \<open>\<^verbatim>\<open>app.get("/api/productos")\<close>\<close>

definition get_productos :: "'db statement \<Rightarrow> request \<Rightarrow> 'db \<Rightarrow> 'db result" where
  "get_productos q req db =
     (case q [] db of
        (Inr r, db') \<Rightarrow>
          \<lparr>outcome = Responded 200 (Json (Rows (rows r))),
           effects = [Query SELECT_PRODUCTOS []], store = db'\<rparr>
      | (Inl err, db') \<Rightarrow>
          \<lparr>outcome = Responded 500 (error_body ''Error al obtener productos''),
           effects = [Query SELECT_PRODUCTOS [], ConsoleError err], store = db'\<rparr>)"

text \<open>\<^verbatim>\<open>app.post("/api/productos", requireAuth, ...)\<close>, the handler after the middleware.\<close>

definition post_productos :: "'db statement \<Rightarrow> request \<Rightarrow> 'db \<Rightarrow> 'db result" where
  "post_productos q req db =
     (let nombre = field req ''nombre''; precio = field req ''precio'';
          categoria = field req ''categoria''; stock = field req ''stock'';
          imagen = field req ''imagen''; nueva_coleccion = field req ''nueva_coleccion'';
          ps = [nombre, precio, categoria, stock, imagen, nueva_coleccion] in
      if \<not> truthy nombre \<or> eq_null precio \<or> \<not> truthy categoria \<or> eq_null stock
      then \<lparr>outcome = Responded 400 (error_body ''Faltan campos obligatorios''),
            effects = [], store = db\<rparr>
      else (case q ps db of
              (Inr r, db') \<Rightarrow>
                \<lparr>outcome = Responded 201 (Json (Obj
                    [(''mensaje'', Val (JStr ''Producto agregado correctamente'')),
                     (''producto'', first_row (rows r))])),
                 effects = [Query INSERT_PRODUCTO ps], store = db'\<rparr>
            | (Inl err, db') \<Rightarrow>
                \<lparr>outcome = Responded 500 (error_body ''Error al agregar producto''),
                 effects = [Query INSERT_PRODUCTO ps, ConsoleError err], store = db'\<rparr>))"

text \<open>\<^verbatim>\<open>app.put("/api/productos/:id", requireAuth, ...)\<close>\<close>

definition put_productos :: "'db statement \<Rightarrow> request \<Rightarrow> 'db \<Rightarrow> 'db result" where
  "put_productos q req db =
     (let nombre = field req ''nombre''; precio = field req ''precio'';
          categoria = field req ''categoria''; stock = field req ''stock'';
          imagen = field req ''imagen''; nueva_coleccion = field req ''nueva_coleccion'';
          ps = [nombre, precio, categoria, stock, imagen, nueva_coleccion, JStr (params_id req)] in
      if \<not> truthy nombre \<or> eq_null precio \<or> \<not> truthy categoria \<or> eq_null stock
      then \<lparr>outcome = Responded 400 (error_body ''Faltan campos obligatorios''),
            effects = [], store = db\<rparr>
      else (case q ps db of
              (Inr r, db') \<Rightarrow>
                if rowCount r = 0
                then \<lparr>outcome = Responded 404 (error_body ''Producto no encontrado''),
                      effects = [Query UPDATE_PRODUCTO ps], store = db'\<rparr>
                else \<lparr>outcome = Responded 200 (Json (Obj
                         [(''mensaje'', Val (JStr ''Producto actualizado correctamente'')),
                          (''producto'', first_row (rows r))])),
                      effects = [Query UPDATE_PRODUCTO ps], store = db'\<rparr>
            | (Inl err, db') \<Rightarrow>
                \<lparr>outcome = Responded 500 (error_body ''Error al actualizar producto''),
                 effects = [Query UPDATE_PRODUCTO ps, ConsoleError err], store = db'\<rparr>))"

text \<open>\<^verbatim>\<open>app.delete("/api/productos/:id", requireAuth, ...)\<close>: the result of the query is
  not looked at; \<^verbatim>\<open>res.sendStatus(204)\<close> follows every query that returns.\<close>

definition delete_productos :: "'db statement \<Rightarrow> request \<Rightarrow> 'db \<Rightarrow> 'db result" where
  "delete_productos q req db =
     (case q [JStr (params_id req)] db of
        (Inr r, db') \<Rightarrow>
          \<lparr>outcome = Responded 204 NoBody,
           effects = [Query DELETE_PRODUCTO [JStr (params_id req)]], store = db'\<rparr>
      | (Inl err, db') \<Rightarrow>
          \<lparr>outcome = Responded 500 (error_body ''Error al eliminar producto''),
           effects = [Query DELETE_PRODUCTO [JStr (params_id req)], ConsoleError err],
           store = db'\<rparr>)"

text \<open>
  \<^verbatim>\<open>/^[^\s@]+@[^\s@]+\.[^\s@]+$/\<close>. \<open>is_space\<close> is \<^verbatim>\<open>\s\<close> on the code units below 256:
  tab, line feed, vertical tab, form feed, carriage return, space, no-break space.
  \<open>plain\<close> is the class \<^verbatim>\<open>[^\s@]\<close>. The first group ends where the first character
  outside the class stands, which has to be the \<^verbatim>\<open>@\<close>; the rest has to be in the class
  and to hold a dot that is neither its first nor its last character.
\<close>

definition is_space :: "char \<Rightarrow> bool" where
  "is_space c = ((of_char c :: nat) \<in> {9, 10, 11, 12, 13, 32, 160})"

definition plain :: "char \<Rightarrow> bool" where
  "plain c = (\<not> is_space c \<and> c \<noteq> CHR ''@'')"

definition email_regex :: "string \<Rightarrow> bool" where
  "email_regex s =
     (takeWhile plain s \<noteq> [] \<and>
      (case dropWhile plain s of
         [] \<Rightarrow> False
       | c # d \<Rightarrow> c = CHR ''@'' \<and> list_all plain d \<and> CHR ''.'' \<in> set (butlast (tl d))))"

text \<open>\<^verbatim>\<open>regex.test(email)\<close> converts its argument to a string first. The text of
  \<^verbatim>\<open>undefined\<close>, \<^verbatim>\<open>null\<close>, a boolean or a number holds no \<^verbatim>\<open>@\<close>.\<close>

fun email_test :: "jsval \<Rightarrow> bool" where
  "email_test (JStr s) = email_regex s"
| "email_test (JObject s) = email_regex s"
| "email_test v = False"

text \<open>\<^verbatim>\<open>app.post("/api/suscribirse")\<close>\<close>

definition suscribirse :: "'db statement \<Rightarrow> request \<Rightarrow> 'db \<Rightarrow> 'db result" where
  "suscribirse q req db =
     (let email = field req ''email'' in
      if \<not> truthy email \<or> \<not> email_test email
      then \<lparr>outcome = Responded 400 (error_body ''Correo electronico no valido''),
            effects = [], store = db\<rparr>
      else (case q [email] db of
              (Inr r, db') \<Rightarrow>
                if rowCount r = 0
                then \<lparr>outcome = Responded 200 (Json (Obj
                         [(''message'', Val (JStr ''Ya estas suscrito''))])),
                      effects = [Query INSERT_SUSCRIPTOR [email]], store = db'\<rparr>
                else \<lparr>outcome = Responded 201 (Json (Obj
                         [(''message'', Val (JStr ''Gracias por suscribirte!''))])),
                      effects = [Query INSERT_SUSCRIPTOR [email]], store = db'\<rparr>
            | (Inl err, db') \<Rightarrow>
                \<lparr>outcome = Responded 500 (error_body ''Error al registrar la suscripcion''),
                 effects = [Query INSERT_SUSCRIPTOR [email], ConsoleError err], store = db'\<rparr>))"

text \<open>\<^verbatim>\<open>app.get("/api/suscriptores", requireAuth, ...)\<close>. A member of \<^verbatim>\<open>req.query\<close> is a
  string when the URL gives it; the defaults of the destructuring are the string
  \<^verbatim>\<open>""\<close> and the numbers 50 and 0.\<close>

definition get_suscriptores :: "'db statement \<Rightarrow> request \<Rightarrow> 'db \<Rightarrow> 'db result" where
  "get_suscriptores q req db =
     (let search = (case query req ''search'' of None \<Rightarrow> [] | Some s \<Rightarrow> s);
          limit = (case query req ''limit'' of None \<Rightarrow> JNum 50 | Some s \<Rightarrow> JStr s);
          offset = (case query req ''offset'' of None \<Rightarrow> JNum 0 | Some s \<Rightarrow> JStr s);
          ps = [JStr (''%'' @ search @ ''%''), limit, offset] in
      case q ps db of
        (Inr r, db') \<Rightarrow>
          \<lparr>outcome = Responded 200 (Json (Rows (rows r))),
           effects = [Query SELECT_SUSCRIPTORES ps], store = db'\<rparr>
      | (Inl err, db') \<Rightarrow>
          \<lparr>outcome = Responded 500 (error_body ''Error al obtener la lista de suscriptores''),
           effects = [Query SELECT_SUSCRIPTORES ps, ConsoleError err], store = db'\<rparr>)"

text \<open>\<^verbatim>\<open>app.delete("/api/suscriptores/:id", requireAuth, ...)\<close>\<close>

definition delete_suscriptores :: "'db statement \<Rightarrow> request \<Rightarrow> 'db \<Rightarrow> 'db result" where
  "delete_suscriptores q req db =
     (case q [JStr (params_id req)] db of
        (Inr r, db') \<Rightarrow>
          if rowCount r = 0
          then \<lparr>outcome = Responded 404 (error_body ''Suscriptor no encontrado''),
                effects = [Query DELETE_SUSCRIPTOR [JStr (params_id req)]], store = db'\<rparr>
          else \<lparr>outcome = Responded 200 (Json (Obj
                   [(''message'', Val (JStr ''Suscriptor eliminado correctamente''))])),
                effects = [Query DELETE_SUSCRIPTOR [JStr (params_id req)]], store = db'\<rparr>
      | (Inl err, db') \<Rightarrow>
          \<lparr>outcome = Responded 500 (error_body ''Error al eliminar el suscriptor''),
           effects = [Query DELETE_SUSCRIPTOR [JStr (params_id req)], ConsoleError err],
           store = db'\<rparr>)"

text \<open>\<^verbatim>\<open>app.get("/api/test")\<close>: the 500 body carries \<^verbatim>\<open>err.message\<close>.\<close>

definition get_test :: "'db statement \<Rightarrow> request \<Rightarrow> 'db \<Rightarrow> 'db result" where
  "get_test q req db =
     (case q [] db of
        (Inr r, db') \<Rightarrow>
          \<lparr>outcome = Responded 200 (Json (Obj
              [(''ok'', Val (JBool True)), (''time'', first_row (rows r))])),
           effects = [Query SELECT_NOW []], store = db'\<rparr>
      | (Inl err, db') \<Rightarrow>
          \<lparr>outcome = Responded 500 (Json (Obj
              [(''ok'', Val (JBool False)), (''error'', Val (JStr err))])),
           effects = [Query SELECT_NOW [], ConsoleError err], store = db'\<rparr>)"

text \<open>\<^verbatim>\<open>app.post("/api/contacto")\<close>: \<^verbatim>\<open>resultado\<close> is logged and not read, so every call
  that returns is answered 200; the 500 body of the \<^verbatim>\<open>catch\<close> carries \<^verbatim>\<open>error.message\<close>
  as \<^verbatim>\<open>detalle\<close>.\<close>

definition contacto :: "mailer \<Rightarrow> request \<Rightarrow> outcome \<times> effect list" where
  "contacto send req =
     (let nombre = field req ''nombre''; email = field req ''email'';
          mensaje = field req ''mensaje'' in
      if \<not> truthy nombre \<or> \<not> truthy email \<or> \<not> truthy mensaje
      then (Responded 400 (error_body ''Todos los campos son obligatorios.''), [])
      else (case send nombre email mensaje of
              Inr resultado \<Rightarrow>
                (Responded 200 (Json (Obj
                   [(''success'', Val (JStr ''Mensaje enviado correctamente''))])),
                 [MailSend nombre email mensaje, ConsoleLog ''RESEND RESPONSE''])
            | Inl err \<Rightarrow>
                (Responded 500 (Json (Obj
                   [(''error'', Val (JStr ''No se pudo enviar el mensaje. Intenta mas tarde.'')),
                    (''detalle'', Val (JStr err))])),
                 [MailSend nombre email mensaje, ConsoleError err])))"

section \<open>The application: routes and middleware\<close>

datatype route =
    POST_login
  | GET_auth_check
  | GET_productos
  | POST_productos
  | PUT_productos
  | DELETE_productos
  | POST_suscribirse
  | GET_suscriptores
  | DELETE_suscriptores
  | GET_test
  | POST_contacto

record 'db deps =
  bcrypt_compare :: comparer
  jwt_sign :: signer
  jwt_verify :: verifier
  pool_query :: "sql \<Rightarrow> 'db statement"
  resend_send :: mailer

text \<open>\<^verbatim>\<open>app.METHOD(path, requireAuth, handler)\<close>: the handler runs when the middleware
  calls \<^verbatim>\<open>next()\<close>, on the request the middleware has marked.\<close>

definition guarded ::
  "verifier \<Rightarrow> env \<Rightarrow> (request \<Rightarrow> 'db \<Rightarrow> 'db result) \<Rightarrow> request \<Rightarrow> 'db \<Rightarrow> 'db result" where
  "guarded verify e handler req db =
     (case requireAuth verify e req of
        (Inl rejected, fx) \<Rightarrow> \<lparr>outcome = rejected, effects = fx, store = db\<rparr>
      | (Inr req', fx) \<Rightarrow>
          (let r = handler req' db in r\<lparr>effects := fx @ effects r\<rparr>))"

text \<open>A handler that does not touch the datastore.\<close>

definition pure_handler :: "outcome \<times> effect list \<Rightarrow> 'db \<Rightarrow> 'db result" where
  "pure_handler r db = \<lparr>outcome = fst r, effects = snd r, store = db\<rparr>"

text \<open>The last function of each route registration.\<close>

fun handler :: "'db deps \<Rightarrow> env \<Rightarrow> route \<Rightarrow> request \<Rightarrow> 'db \<Rightarrow> 'db result" where
  "handler d e POST_login req db = pure_handler (login (bcrypt_compare d) (jwt_sign d) e req) db"
| "handler d e GET_auth_check req db = pure_handler (auth_check (jwt_verify d) e req) db"
| "handler d e GET_productos req db = get_productos (pool_query d SELECT_PRODUCTOS) req db"
| "handler d e POST_productos req db = post_productos (pool_query d INSERT_PRODUCTO) req db"
| "handler d e PUT_productos req db = put_productos (pool_query d UPDATE_PRODUCTO) req db"
| "handler d e DELETE_productos req db = delete_productos (pool_query d DELETE_PRODUCTO) req db"
| "handler d e POST_suscribirse req db = suscribirse (pool_query d INSERT_SUSCRIPTOR) req db"
| "handler d e GET_suscriptores req db =
     get_suscriptores (pool_query d SELECT_SUSCRIPTORES) req db"
| "handler d e DELETE_suscriptores req db =
     delete_suscriptores (pool_query d DELETE_SUSCRIPTOR) req db"
| "handler d e GET_test req db = get_test (pool_query d SELECT_NOW) req db"
| "handler d e POST_contacto req db = pure_handler (contacto (resend_send d) req) db"

text \<open>The routes registered with \<^verbatim>\<open>requireAuth\<close> before their handler.\<close>

fun behind_requireAuth :: "route \<Rightarrow> bool" where
  "behind_requireAuth POST_productos = True"
| "behind_requireAuth PUT_productos = True"
| "behind_requireAuth DELETE_productos = True"
| "behind_requireAuth GET_suscriptores = True"
| "behind_requireAuth DELETE_suscriptores = True"
| "behind_requireAuth r = False"

definition app :: "'db deps \<Rightarrow> env \<Rightarrow> route \<Rightarrow> request \<Rightarrow> 'db \<Rightarrow> 'db result" where
  "app d e r req db =
     (if behind_requireAuth r then guarded (jwt_verify d) e (handler d e r) req db
      else handler d e r req db)"

section \<open>The datastore\<close>

text \<open>
  Modelled from the spec: the schema of the two tables is not in the repository. The
  data model gives a catalog item a generated, unique, monotonic \<open>id\<close> and a subscriber
  a generated \<open>id\<close>, a unique \<open>email\<close> and a timestamp assigned by the server. Each
  table is the list of its rows with the next value of its id sequence. The other
  columns hold the values that the statement binds (the driver binds \<^verbatim>\<open>undefined\<close> as
  \<^verbatim>\<open>null\<close>). Below are four statements of \<^verbatim>\<open>server.js\<close> and the product insert,
  read as SQL over these tables; a failure of the connection is not among their
  results, and a parameter of another type than the statement expects makes it fail.
\<close>

record producto =
  p_id :: int
  p_nombre :: jsval
  p_precio :: jsval
  p_categoria :: jsval
  p_stock :: jsval
  p_imagen :: jsval
  p_nueva_coleccion :: jsval

record suscriptor =
  s_id :: int
  s_email :: string
  s_fecha :: nat

record tables =
  productos :: "producto list"
  productos_seq :: int
  suscriptores :: "suscriptor list"
  suscriptores_seq :: int

fun bind :: "jsval \<Rightarrow> jsval" where
  "bind JUndefined = JNull"
| "bind v = v"

definition producto_row :: "producto \<Rightarrow> row" where
  "producto_row p =
     [(''id'', JNum (of_int (p_id p))), (''nombre'', p_nombre p), (''precio'', p_precio p),
      (''categoria'', p_categoria p), (''stock'', p_stock p), (''imagen'', p_imagen p),
      (''nueva_coleccion'', p_nueva_coleccion p)]"

definition suscriptor_row :: "suscriptor \<Rightarrow> row" where
  "suscriptor_row r =
     [(''id'', JNum (of_int (s_id r))), (''email'', JStr (s_email r)),
      (''fecha'', JNum (of_nat (s_fecha r)))]"

text \<open>The text of an id parameter as the integer column reads it: decimal digits
  with an optional sign. Any other text makes the statement fail.\<close>

definition digit_of :: "char \<Rightarrow> nat option" where
  "digit_of c = (let n = (of_char c :: nat) in if 48 \<le> n \<and> n \<le> 57 then Some (n - 48) else None)"

fun digits_val :: "nat \<Rightarrow> string \<Rightarrow> nat option" where
  "digits_val acc [] = Some acc"
| "digits_val acc (c # cs) =
     (case digit_of c of None \<Rightarrow> None | Some d \<Rightarrow> digits_val (10 * acc + d) cs)"

definition nat_in :: "string \<Rightarrow> nat option" where
  "nat_in s = (if s = [] then None else digits_val 0 s)"

fun int_in :: "string \<Rightarrow> int option" where
  "int_in [] = None"
| "int_in (c # cs) =
     (if c = CHR ''-'' then map_option (\<lambda>n. - int n) (nat_in cs)
      else if c = CHR ''+'' then map_option int (nat_in cs)
      else map_option int (nat_in (c # cs)))"

text \<open>\<^verbatim>\<open>SELECT * FROM productos ORDER BY id DESC\<close>\<close>

definition select_productos :: "tables statement" where
  "select_productos ps t =
     (Inr \<lparr>rowCount = length (productos t),
           rows = map producto_row (rev (sort_key p_id (productos t)))\<rparr>, t)"

text \<open>\<^verbatim>\<open>INSERT INTO productos (nombre, precio, categoria, stock, imagen, nueva_coleccion)
  VALUES ($1, $2, $3, $4, $5, $6) RETURNING *\<close>\<close>

fun insert_producto :: "tables statement" where
  "insert_producto [n, p, c, s, i, nc] t =
     (let r = \<lparr>p_id = productos_seq t, p_nombre = bind n, p_precio = bind p,
               p_categoria = bind c, p_stock = bind s, p_imagen = bind i,
               p_nueva_coleccion = bind nc\<rparr>
      in (Inr \<lparr>rowCount = 1, rows = [producto_row r]\<rparr>,
          t\<lparr>productos := productos t @ [r], productos_seq := productos_seq t + 1\<rparr>))"
| "insert_producto ps t = (Inl ''bind message supplies the wrong number of parameters'', t)"

text \<open>\<^verbatim>\<open>DELETE FROM productos WHERE id=$1\<close>\<close>

fun delete_producto :: "tables statement" where
  "delete_producto [JStr txt] t =
     (case int_in txt of
        None \<Rightarrow> (Inl ''invalid input syntax for type integer'', t)
      | Some i \<Rightarrow>
          (Inr \<lparr>rowCount = length (filter (\<lambda>r. p_id r = i) (productos t)), rows = []\<rparr>,
           t\<lparr>productos := filter (\<lambda>r. p_id r \<noteq> i) (productos t)\<rparr>))"
| "delete_producto ps t = (Inl ''invalid input syntax for type integer'', t)"

text \<open>\<^verbatim>\<open>INSERT INTO suscriptores (email) VALUES ($1) ON CONFLICT (email) DO NOTHING
  RETURNING id, email, fecha\<close>, run when the clock of the database shows \<open>clock\<close>.\<close>

fun insert_suscriptor :: "nat \<Rightarrow> tables statement" where
  "insert_suscriptor clock [JStr e] t =
     (if e \<in> set (map s_email (suscriptores t))
      then (Inr \<lparr>rowCount = 0, rows = []\<rparr>, t)
      else (let r = \<lparr>s_id = suscriptores_seq t, s_email = e, s_fecha = clock\<rparr>
            in (Inr \<lparr>rowCount = 1, rows = [suscriptor_row r]\<rparr>,
                t\<lparr>suscriptores := suscriptores t @ [r],
                  suscriptores_seq := suscriptores_seq t + 1\<rparr>)))"
| "insert_suscriptor clock ps t = (Inl ''parameter is not a text'', t)"

text \<open>\<^verbatim>\<open>DELETE FROM suscriptores WHERE id = $1 RETURNING *\<close>\<close>

fun delete_suscriptor :: "tables statement" where
  "delete_suscriptor [JStr txt] t =
     (case int_in txt of
        None \<Rightarrow> (Inl ''invalid input syntax for type integer'', t)
      | Some i \<Rightarrow>
          (Inr \<lparr>rowCount = length (filter (\<lambda>r. s_id r = i) (suscriptores t)),
                rows = map suscriptor_row (filter (\<lambda>r. s_id r = i) (suscriptores t))\<rparr>,
           t\<lparr>suscriptores := filter (\<lambda>r. s_id r \<noteq> i) (suscriptores t)\<rparr>))"
| "delete_suscriptor ps t = (Inl ''invalid input syntax for type integer'', t)"

text \<open>The key constraints: ids are unique and below the next value of their sequence,
  emails are unique.\<close>

definition keys_ok :: "tables \<Rightarrow> bool" where
  "keys_ok t =
     (distinct (map p_id (productos t)) \<and> list_all (\<lambda>r. p_id r < productos_seq t) (productos t) \<and>
      distinct (map s_id (suscriptores t)) \<and>
      list_all (\<lambda>r. s_id r < suscriptores_seq t) (suscriptores t) \<and>
      distinct (map s_email (suscriptores t)))"

definition empty_tables :: tables where
  "empty_tables = \<lparr>productos = [], productos_seq = 1, suscriptores = [], suscriptores_seq = 1\<rparr>"

section \<open>The token codec\<close>

text \<open>
  Modelled from the spec: the token codec is the \<^verbatim>\<open>jsonwebtoken\<close> package, which is not
  in the repository; \<^verbatim>\<open>server.js\<close> only calls \<^verbatim>\<open>jwt.sign\<close> and \<^verbatim>\<open>jwt.verify\<close>. Section 4.1
  of the spec: a session token is a signed string encoding the identity claim, the
  time of issue and the time of expiry; \<open>issue\<close> binds the claim and the expiry (time
  of issue plus 8 hours) under the secret of the process; \<open>verify\<close> fails with
  \<open>InvalidTokenError\<close> if the signature does not match, the structure is malformed,
  or the current time is at or past the encoded expiry, and returns the embedded
  claim otherwise. The wire format (\<open>encode\<close>, \<open>decode\<close>; \<open>None\<close> is a malformed
  token) and the keyed signature (\<open>mac\<close>) are parameters. An unset or empty secret
  signs and matches nothing.
\<close>

record session_token =
  token_user :: string
  issuedAt :: nat
  expiresAt :: nat
  signature :: string

type_synonym mac = "string \<Rightarrow> string \<times> nat \<times> nat \<Rightarrow> string"

definition signature_matches :: "mac \<Rightarrow> string option \<Rightarrow> session_token \<Rightarrow> bool" where
  "signature_matches sign_with secret t =
     (case secret of
        None \<Rightarrow> False
      | Some k \<Rightarrow> k \<noteq> [] \<and> signature t = sign_with k (token_user t, issuedAt t, expiresAt t))"

definition verify :: "(string \<Rightarrow> session_token option) \<Rightarrow> mac \<Rightarrow> verifier" where
  "verify decode sign_with token secret clock =
     (case decode token of
        None \<Rightarrow> Inl ''InvalidTokenError''
      | Some t \<Rightarrow>
          if \<not> signature_matches sign_with secret t then Inl ''InvalidTokenError''
          else if expiresAt t \<le> clock then Inl ''InvalidTokenError''
          else Inr (JStr (token_user t)))"

definition issue :: "(session_token \<Rightarrow> string) \<Rightarrow> mac \<Rightarrow> signer" where
  "issue encode sign_with claim secret clock =
     (case secret of
        None \<Rightarrow> Inl ''secret missing''
      | Some k \<Rightarrow>
          if k = [] then Inl ''secret missing''
          else Inr (encode \<lparr>token_user = claim, issuedAt = clock, expiresAt = clock + 8 * 3600,
                            signature = sign_with k (claim, clock, clock + 8 * 3600)\<rparr>))"

section \<open>A concrete deployment\<close>

text \<open>
  Concrete collaborators, on which the definitions above are evaluated: a wire
  format \<open>issued.expiry.user.signature\<close> with decimal times, a keyed signature that
  writes the key backwards before the signed data, a hash comparison in the same
  style, a mailer whose provider accepts every message, and a pool over \<open>tables\<close> whose
  connection is lost for the statements that are not read as SQL above.
\<close>

fun show_nat :: "nat \<Rightarrow> string" where
  "show_nat n =
     (if n < 10 then [''0123456789'' ! n]
      else show_nat (n div 10) @ [''0123456789'' ! (n mod 10)])"

definition example_mac :: mac where
  "example_mac k c =
     (case c of (u, i, x) \<Rightarrow> rev k @ ''-'' @ u @ ''-'' @ show_nat i @ ''-'' @ show_nat x)"

definition example_encode :: "session_token \<Rightarrow> string" where
  "example_encode t =
     show_nat (issuedAt t) @ ''.'' @ show_nat (expiresAt t) @ ''.'' @ token_user t @ ''.'' @
     signature t"

definition example_decode :: "string \<Rightarrow> session_token option" where
  "example_decode s =
     (case split_on CHR ''.'' s of
        [a, b, u, g] \<Rightarrow>
          (case nat_in a of
             None \<Rightarrow> None
           | Some i \<Rightarrow>
               (case nat_in b of
                  None \<Rightarrow> None
                | Some x \<Rightarrow>
                    Some \<lparr>token_user = u, issuedAt = i, expiresAt = x, signature = g\<rparr>))
      | _ \<Rightarrow> None)"

definition example_compare :: comparer where
  "example_compare data hash =
     (case data of
        JStr s \<Rightarrow> Inr (hash = ''$2b$'' @ rev s)
      | _ \<Rightarrow> Inl ''data and hash must be strings'')"

definition example_send :: mailer where
  "example_send nombre email mensaje = Inr (SendData ''49a3999c-0ce1-4ea6-ab68-afcd6dc2e794'')"

fun example_pool :: "sql \<Rightarrow> tables statement" where
  "example_pool SELECT_PRODUCTOS = select_productos"
| "example_pool INSERT_PRODUCTO = insert_producto"
| "example_pool DELETE_PRODUCTO = delete_producto"
| "example_pool INSERT_SUSCRIPTOR = insert_suscriptor 1700000000"
| "example_pool DELETE_SUSCRIPTOR = delete_suscriptor"
| "example_pool s = (\<lambda>ps t. (Inl ''Connection terminated unexpectedly'', t))"

definition example_deps :: "tables deps" where
  "example_deps =
     \<lparr>bcrypt_compare = example_compare,
      jwt_sign = issue example_encode example_mac,
      jwt_verify = verify example_decode example_mac,
      pool_query = example_pool,
      resend_send = example_send\<rparr>"

text \<open>The same deployment while the database is out of reach (the query rejects)
  and the mail provider refuses the key (the call resolves to an object with
  \<^verbatim>\<open>error\<close> set).\<close>

definition outage_deps :: "tables deps" where
  "outage_deps =
     example_deps
       \<lparr>pool_query := (\<lambda>s ps t. (Inl ''Connection terminated unexpectedly'', t)),
        resend_send := (\<lambda>nombre email mensaje. Inr (SendError ''API key is invalid''))\<rparr>"

definition example_env :: env where
  "example_env =
     \<lparr>ADMIN_USER = Some ''admin'', ADMIN_PASS_HASH = Some ''$2b$terces'',
      JWT_SECRET = Some ''k3y'', now = 1000\<rparr>"

text \<open>A request with no header, no body member, no query member and the path
  parameter \<^verbatim>\<open>7\<close>.\<close>

definition bare_request :: request where
  "bare_request =
     \<lparr>authorization = None, body = Map.empty, params_id = ''7'', query = Map.empty,
      user = JUndefined\<rparr>"

text \<open>A catalog of two items, in the order of their creation.\<close>

definition example_catalog :: tables where
  "example_catalog =
     empty_tables
       \<lparr>productos :=
          [\<lparr>p_id = 1, p_nombre = JStr ''Anillo'', p_precio = JNum 10,
            p_categoria = JStr ''anillos'', p_stock = JNum 3, p_imagen = JNull,
            p_nueva_coleccion = JBool False\<rparr>,
           \<lparr>p_id = 2, p_nombre = JStr ''Collar'', p_precio = JNum 25,
            p_categoria = JStr ''collares'', p_stock = JNum 1, p_imagen = JNull,
            p_nueva_coleccion = JBool True\<rparr>],
        productos_seq := 3\<rparr>"

section \<open>Properties of the authentication middleware\<close>

lemma split_on_none: "c \<notin> set s \<Longrightarrow> split_on c s = [s]"
  by (induction s) auto

lemma split_on_first: "c \<notin> set a \<Longrightarrow> split_on c (a @ c # b) = a # split_on c b"
  by (induction a) auto

lemma header_token_scheme:
  "CHR '' '' \<notin> set scheme \<Longrightarrow> CHR '' '' \<notin> set t \<Longrightarrow>
   header_token (req\<lparr>authorization := Some (scheme @ '' '' @ t)\<rparr>) = Some t"
  by (simp add: header_token_def split_on_first split_on_none)

lemma header_token_bare:
  "CHR '' '' \<notin> set t \<Longrightarrow> header_token (req\<lparr>authorization := Some t\<rparr>) = None"
  by (simp add: header_token_def split_on_none)

lemma example_token_verifies:
  "verify example_decode example_mac ''0.28800.admin.y3k-admin-0-28800'' (Some ''k3y'') 1000
     = Inr (JStr ''admin'')"
  by (simp add: verify_def example_decode_def example_mac_def signature_matches_def
      nat_in_def digit_of_def)

text \<open>
  Claim C9. The middleware and \<^verbatim>\<open>/api/auth-check\<close> take the second piece of the
  Authorization header split at spaces and never look at the first piece. For a
  token \<open>t\<close> that the verifier accepts (a non-empty text without a space) and any
  scheme word without a space, the header \<open>scheme t\<close> is accepted by both: the
  middleware calls \<^verbatim>\<open>next()\<close> with \<^verbatim>\<open>req.user\<close> set, the check answers 200. The header
  that is the bare token \<open>t\<close> is answered 401 with \<^verbatim>\<open>Token faltante\<close> by both, and the
  verifier is not called.
\<close>

theorem scheme_word_not_validated:
  assumes "CHR '' '' \<notin> set scheme" and "CHR '' '' \<notin> set t" and "t \<noteq> []"
    and "v t (JWT_SECRET e) (now e) = Inr u"
  shows "requireAuth v e (req\<lparr>authorization := Some (scheme @ '' '' @ t)\<rparr>) =
           (Inr (req\<lparr>authorization := Some (scheme @ '' '' @ t), user := u\<rparr>), [JwtVerify t]) \<and>
         auth_check v e (req\<lparr>authorization := Some (scheme @ '' '' @ t)\<rparr>) =
           (Responded 200 (Json (Obj [(''ok'', Val (JBool True)), (''user'', Val u)])),
            [JwtVerify t]) \<and>
         requireAuth v e (req\<lparr>authorization := Some t\<rparr>) =
           (Inl (Responded 401 (error_body ''Token faltante'')), []) \<and>
         auth_check v e (req\<lparr>authorization := Some t\<rparr>) =
           (Responded 401 (error_body ''Token faltante''), [])"
proof -
  have with_scheme: "header_token (req\<lparr>authorization := Some (scheme @ '' '' @ t)\<rparr>) = Some t"
    using assms(1,2) by (rule header_token_scheme)
  have bare: "header_token (req\<lparr>authorization := Some t\<rparr>) = None"
    using assms(2) by (rule header_token_bare)
  show ?thesis
    using assms(3,4) with_scheme bare by (simp add: requireAuth_def auth_check_def)
qed

theorem scheme_word_not_validated_witness:
  "requireAuth (verify example_decode example_mac) example_env
     (bare_request\<lparr>authorization := Some ''Basic 0.28800.admin.y3k-admin-0-28800''\<rparr>) =
     (Inr (bare_request\<lparr>authorization := Some ''Basic 0.28800.admin.y3k-admin-0-28800'',
                        user := JStr ''admin''\<rparr>),
      [JwtVerify ''0.28800.admin.y3k-admin-0-28800'']) \<and>
   auth_check (verify example_decode example_mac) example_env
     (bare_request\<lparr>authorization := Some ''Basic 0.28800.admin.y3k-admin-0-28800''\<rparr>) =
     (Responded 200 (Json (Obj [(''ok'', Val (JBool True)), (''user'', Val (JStr ''admin''))])),
      [JwtVerify ''0.28800.admin.y3k-admin-0-28800'']) \<and>
   requireAuth (verify example_decode example_mac) example_env
     (bare_request\<lparr>authorization := Some ''0.28800.admin.y3k-admin-0-28800''\<rparr>) =
     (Inl (Responded 401 (error_body ''Token faltante'')), []) \<and>
   auth_check (verify example_decode example_mac) example_env
     (bare_request\<lparr>authorization := Some ''0.28800.admin.y3k-admin-0-28800''\<rparr>) =
     (Responded 401 (error_body ''Token faltante''), [])"
  using scheme_word_not_validated [of "''Basic''" "''0.28800.admin.y3k-admin-0-28800''"
      "verify example_decode example_mac" example_env "JStr ''admin''" bare_request]
    example_token_verifies
  by (simp add: example_env_def)

lemma example_bob_verifies:
  "verify example_decode example_mac ''0.28800.bob.y3k-bob-0-28800'' (Some ''k3y'') 1000
     = Inr (JStr ''bob'')"
  by (simp add: verify_def example_decode_def example_mac_def signature_matches_def
      nat_in_def digit_of_def)

lemma header_token_bearer_bob:
  "header_token (bare_request\<lparr>authorization := Some ''Bearer 0.28800.bob.y3k-bob-0-28800''\<rparr>)
     = Some ''0.28800.bob.y3k-bob-0-28800''"
  by (simp add: header_token_def)

lemma header_token_bearer_admin:
  "header_token (bare_request\<lparr>authorization := Some ''Bearer 0.28800.admin.y3k-admin-0-28800''\<rparr>)
     = Some ''0.28800.admin.y3k-admin-0-28800''"
  by (simp add: header_token_def)

text \<open>
  Claim C1, as stated, fails. The claim: on the routes behind \<^verbatim>\<open>requireAuth\<close> the
  handler body runs only if the verifier accepted the token and the identity in the
  token equals \<^verbatim>\<open>ADMIN_USER\<close>. Here \<^verbatim>\<open>ADMIN_USER\<close> is \<^verbatim>\<open>admin\<close>, the token is signed with
  the secret of the process and carries the identity \<^verbatim>\<open>bob\<close>, and
  \<^verbatim>\<open>DELETE /api/productos/7\<close> runs its handler: the statement is sent, the row is gone,
  the answer is 204.
\<close>

theorem token_of_another_identity_runs_handler:
  "ADMIN_USER example_env = Some ''admin'' \<and>
   jwt_verify example_deps ''0.28800.bob.y3k-bob-0-28800'' (JWT_SECRET example_env)
     (now example_env) = Inr (JStr ''bob'') \<and>
   app example_deps example_env DELETE_productos
     (bare_request\<lparr>authorization := Some ''Bearer 0.28800.bob.y3k-bob-0-28800''\<rparr>)
     (empty_tables\<lparr>productos := [\<lparr>p_id = 7, p_nombre = JStr ''Anillo'', p_precio = JNum 10,
         p_categoria = JStr ''anillos'', p_stock = JNum 1, p_imagen = JNull,
         p_nueva_coleccion = JNull\<rparr>], productos_seq := 8\<rparr>) =
   \<lparr>outcome = Responded 204 NoBody,
    effects = [JwtVerify ''0.28800.bob.y3k-bob-0-28800'', Query DELETE_PRODUCTO [JStr ''7'']],
    store = empty_tables\<lparr>productos := [], productos_seq := 8\<rparr>\<rparr>"
  using example_bob_verifies header_token_bearer_bob
  by (simp add: app_def guarded_def requireAuth_def example_deps_def example_env_def
      delete_productos_def bare_request_def nat_in_def digit_of_def empty_tables_def)

text \<open>
  Claim C1, amended. On \<^verbatim>\<open>POST\<close>, \<^verbatim>\<open>PUT\<close> and \<^verbatim>\<open>DELETE /api/productos\<close>,
  \<^verbatim>\<open>GET /api/suscriptores\<close> and \<^verbatim>\<open>DELETE /api/suscriptores/:id\<close> the handler body runs
  if and only if the request carries a token that the verifier accepts, whatever
  identity the token embeds (it is stored in \<^verbatim>\<open>req.user\<close> and not compared with
  \<^verbatim>\<open>ADMIN_USER\<close>): then the result is the one of the handler on the marked request,
  after the call of the verifier. Otherwise the response is 401, the store is
  unchanged and no statement is sent to the datastore.
\<close>

theorem requireAuth_decides:
  assumes "r \<in> {POST_productos, PUT_productos, DELETE_productos, GET_suscriptores,
                 DELETE_suscriptores}"
  shows "(\<forall>token u. header_token req = Some token \<and> token \<noteq> [] \<and>
            jwt_verify d token (JWT_SECRET e) (now e) = Inr u \<longrightarrow>
            app d e r req db =
              (handler d e r (req\<lparr>user := u\<rparr>) db)
                \<lparr>effects := JwtVerify token # effects (handler d e r (req\<lparr>user := u\<rparr>) db)\<rparr>) \<and>
         ((\<nexists>token u. header_token req = Some token \<and> token \<noteq> [] \<and>
            jwt_verify d token (JWT_SECRET e) (now e) = Inr u) \<longrightarrow>
            (outcome (app d e r req db) = Responded 401 (error_body ''Token faltante'') \<or>
             outcome (app d e r req db) = Responded 401 (error_body ''Token invalido'')) \<and>
            store (app d e r req db) = db \<and>
            (\<forall>s ps. Query s ps \<notin> set (effects (app d e r req db))))"
proof -
  from assms have g: "app d e r req db = guarded (jwt_verify d) e (handler d e r) req db"
    by (auto simp: app_def)
  show ?thesis
    unfolding g guarded_def requireAuth_def
    by (auto simp: Let_def split: option.splits sum.splits)
qed

theorem requireAuth_decides_witness:
  "app example_deps example_env GET_suscriptores
     (bare_request\<lparr>authorization := Some ''Bearer 0.28800.admin.y3k-admin-0-28800''\<rparr>)
     empty_tables =
   \<lparr>outcome = Responded 500 (error_body ''Error al obtener la lista de suscriptores''),
    effects = [JwtVerify ''0.28800.admin.y3k-admin-0-28800'',
               Query SELECT_SUSCRIPTORES [JStr ''%%'', JNum 50, JNum 0],
               ConsoleError ''Connection terminated unexpectedly''],
    store = empty_tables\<rparr> \<and>
   outcome (app example_deps example_env DELETE_suscriptores bare_request empty_tables) =
     Responded 401 (error_body ''Token faltante'') \<and>
   store (app example_deps example_env DELETE_suscriptores bare_request empty_tables) =
     empty_tables \<and>
   effects (app example_deps example_env DELETE_suscriptores bare_request empty_tables) = []"
proof -
  have accepted:
    "jwt_verify example_deps ''0.28800.admin.y3k-admin-0-28800'' (JWT_SECRET example_env)
       (now example_env) = Inr (JStr ''admin'')"
    using example_token_verifies by (simp add: example_deps_def example_env_def)
  have ran: "app example_deps example_env GET_suscriptores
     (bare_request\<lparr>authorization := Some ''Bearer 0.28800.admin.y3k-admin-0-28800''\<rparr>)
     empty_tables =
   \<lparr>outcome = Responded 500 (error_body ''Error al obtener la lista de suscriptores''),
    effects = [JwtVerify ''0.28800.admin.y3k-admin-0-28800'',
               Query SELECT_SUSCRIPTORES [JStr ''%%'', JNum 50, JNum 0],
               ConsoleError ''Connection terminated unexpectedly''],
    store = empty_tables\<rparr>"
    using requireAuth_decides [of GET_suscriptores
        "bare_request\<lparr>authorization := Some ''Bearer 0.28800.admin.y3k-admin-0-28800''\<rparr>"
        example_deps example_env empty_tables]
      accepted header_token_bearer_admin
    by (simp add: get_suscriptores_def example_deps_def bare_request_def)
  have none: "header_token bare_request = None"
    by (simp add: header_token_def bare_request_def)
  have rejected:
    "outcome (app example_deps example_env DELETE_suscriptores bare_request empty_tables) =
       Responded 401 (error_body ''Token faltante'') \<and>
     store (app example_deps example_env DELETE_suscriptores bare_request empty_tables) =
       empty_tables \<and>
     effects (app example_deps example_env DELETE_suscriptores bare_request empty_tables) = []"
    using none by (simp add: app_def guarded_def requireAuth_def)
  from ran rejected show ?thesis by simp
qed

text \<open>
  Claim C2, as stated, fails. The claim: whenever both credentials are present and
  the administrator is configured, the hash comparison is executed whether or not the
  username matches. Here the username is \<^verbatim>\<open>mallory\<close>, the administrator is \<^verbatim>\<open>admin\<close>, and
  the handler answers 401 without any call: \<^verbatim>\<open>bcrypt.compare\<close> is not reached (line 62
  returns before line 66).
\<close>

theorem unknown_user_skips_hash:
  "truthy (field (bare_request\<lparr>body := [''user'' \<mapsto> JStr ''mallory'', ''password'' \<mapsto> JStr ''secret'']\<rparr>) ''user'') \<and>
   truthy (field (bare_request\<lparr>body := [''user'' \<mapsto> JStr ''mallory'', ''password'' \<mapsto> JStr ''secret'']\<rparr>) ''password'') \<and>
   ADMIN_USER example_env = Some ''admin'' \<and>
   ADMIN_PASS_HASH example_env = Some ''$2b$terces'' \<and>
   login example_compare (issue example_encode example_mac) example_env
     (bare_request\<lparr>body := [''user'' \<mapsto> JStr ''mallory'', ''password'' \<mapsto> JStr ''secret'']\<rparr>) =
     (Responded 401 (error_body ''Usuario o contrasena incorrectos''), [])"
  by (simp add: login_def field_def example_env_def)

text \<open>
  Claim C2, amended. For every login request with both credentials present and the
  administrator configured, the hash comparison is executed if and only if the
  submitted username equals \<^verbatim>\<open>ADMIN_USER\<close>: an unknown username is answered 401 before
  any call, a matching username makes the comparison the first call. The failure
  response for an unknown username is identical to the one for the right username
  with a password that the comparison refuses.
\<close>

theorem hash_compared_for_admin_only:
  assumes "truthy (field req ''user'')" and "truthy (field req ''password'')"
    and "ADMIN_USER e = Some adminUser" and "ADMIN_PASS_HASH e = Some adminHash"
    and "adminUser \<noteq> []" and "adminHash \<noteq> []"
  shows "(field req ''user'' \<noteq> JStr adminUser \<longrightarrow>
            login compare sign e req =
              (Responded 401 (error_body ''Usuario o contrasena incorrectos''), [])) \<and>
         (field req ''user'' = JStr adminUser \<longrightarrow>
            hd (snd (login compare sign e req)) =
              BcryptCompare (field req ''password'') adminHash \<and>
            snd (login compare sign e req) \<noteq> [] \<and>
            (compare (field req ''password'') adminHash = Inr False \<longrightarrow>
               login compare sign e req =
                 (Responded 401 (error_body ''Usuario o contrasena incorrectos''),
                  [BcryptCompare (field req ''password'') adminHash])))"
  using assms by (auto simp: login_def Let_def split: sum.splits)

theorem hash_compared_for_admin_only_witness:
  "login example_compare (issue example_encode example_mac) example_env
     (bare_request\<lparr>body := [''user'' \<mapsto> JStr ''admin'', ''password'' \<mapsto> JStr ''wrong'']\<rparr>) =
     (Responded 401 (error_body ''Usuario o contrasena incorrectos''),
      [BcryptCompare (JStr ''wrong'') ''$2b$terces''])"
  using hash_compared_for_admin_only [of
      "bare_request\<lparr>body := [''user'' \<mapsto> JStr ''admin'', ''password'' \<mapsto> JStr ''wrong'']\<rparr>"
      example_env "''admin''" "''$2b$terces''" example_compare
      "issue example_encode example_mac"]
  by (simp add: field_def example_env_def example_compare_def)

text \<open>The login handler signs a token only for the configured administrator, after
  the hash comparison has accepted the password.\<close>

lemma login_signs_for_admin_only:
  assumes "JwtSign u \<in> set (snd (login compare sign e req))"
  shows "ADMIN_USER e = Some u \<and> field req ''user'' = JStr u \<and>
         compare (field req ''password'')
           (case ADMIN_PASS_HASH e of Some h \<Rightarrow> h | None \<Rightarrow> []) = Inr True"
  using assms
  by (auto simp: login_def Let_def split: option.splits if_splits sum.splits)

section \<open>Properties of the resource handlers\<close>

text \<open>
  Claim C8. For every \<^verbatim>\<open>POST /api/contacto\<close> in which at least one of \<^verbatim>\<open>nombre\<close>,
  \<^verbatim>\<open>email\<close>, \<^verbatim>\<open>mensaje\<close> is empty or absent (falsy), the response is 400 and the mail
  relay is not called: the run has no effect at all.
\<close>

theorem contact_validation_before_relay:
  assumes "\<not> truthy (field req ''nombre'') \<or> \<not> truthy (field req ''email'') \<or>
           \<not> truthy (field req ''mensaje'')"
  shows "app d e POST_contacto req db =
           \<lparr>outcome = Responded 400 (error_body ''Todos los campos son obligatorios.''),
            effects = [], store = db\<rparr> \<and>
         (\<forall>n a m. MailSend n a m \<notin> set (effects (app d e POST_contacto req db)))"
  using assms by (auto simp: app_def pure_handler_def contacto_def)

theorem contact_validation_before_relay_witness:
  "\<not> truthy (field (bare_request\<lparr>body := [''nombre'' \<mapsto> JStr ''Ana'', ''email'' \<mapsto> JStr ''ana@example.com'', ''mensaje'' \<mapsto> JStr '''']\<rparr>) ''mensaje'') \<and>
   app example_deps example_env POST_contacto
     (bare_request\<lparr>body := [''nombre'' \<mapsto> JStr ''Ana'', ''email'' \<mapsto> JStr ''ana@example.com'', ''mensaje'' \<mapsto> JStr '''']\<rparr>)
     empty_tables =
     \<lparr>outcome = Responded 400 (error_body ''Todos los campos son obligatorios.''),
      effects = [], store = empty_tables\<rparr>"
  using contact_validation_before_relay [of
      "bare_request\<lparr>body := [''nombre'' \<mapsto> JStr ''Ana'', ''email'' \<mapsto> JStr ''ana@example.com'', ''mensaje'' \<mapsto> JStr '''']\<rparr>"
      example_deps example_env empty_tables]
  by (simp add: field_def)

lemma field_marked [simp]: "field (req\<lparr>user := u\<rparr>) k = field req k"
  by (simp add: field_def)

text \<open>
  Claim C7. An authenticated \<^verbatim>\<open>POST /api/productos\<close> whose body has a non-empty
  \<^verbatim>\<open>nombre\<close> and \<^verbatim>\<open>categoria\<close>, \<^verbatim>\<open>precio\<close> 0 and \<^verbatim>\<open>stock\<close> 0 passes the validation of line
  105 (the test is \<^verbatim>\<open>== null\<close>, which 0 does not meet): the INSERT is sent with the two
  zeros, and when the datastore returns its result the response is 201 with the
  returned row.
\<close>

theorem zero_price_and_stock_accepted:
  assumes "header_token req = Some token" and "token \<noteq> []"
    and "jwt_verify d token (JWT_SECRET e) (now e) = Inr u"
    and "field req ''nombre'' = JStr n" and "n \<noteq> []"
    and "field req ''categoria'' = JStr c" and "c \<noteq> []"
    and "field req ''precio'' = JNum 0" and "field req ''stock'' = JNum 0"
    and "pool_query d INSERT_PRODUCTO
           [JStr n, JNum 0, JStr c, JNum 0, field req ''imagen'', field req ''nueva_coleccion''] db
         = (Inr r, db')"
  shows "app d e POST_productos req db =
           \<lparr>outcome = Responded 201 (Json (Obj
               [(''mensaje'', Val (JStr ''Producto agregado correctamente'')),
                (''producto'', first_row (rows r))])),
            effects = [JwtVerify token,
                       Query INSERT_PRODUCTO [JStr n, JNum 0, JStr c, JNum 0,
                         field req ''imagen'', field req ''nueva_coleccion'']],
            store = db'\<rparr>"
  using assms
  by (simp add: app_def guarded_def requireAuth_def post_productos_def Let_def)

theorem zero_price_and_stock_accepted_witness:
  "app example_deps example_env POST_productos
     (bare_request\<lparr>authorization := Some ''Bearer 0.28800.admin.y3k-admin-0-28800'',
        body := [''nombre'' \<mapsto> JStr ''Anillo'', ''precio'' \<mapsto> JNum 0,
                 ''categoria'' \<mapsto> JStr ''anillos'', ''stock'' \<mapsto> JNum 0]\<rparr>)
     empty_tables =
   \<lparr>outcome = Responded 201 (Json (Obj
       [(''mensaje'', Val (JStr ''Producto agregado correctamente'')),
        (''producto'',
         Row [(''id'', JNum 1), (''nombre'', JStr ''Anillo''), (''precio'', JNum 0),
              (''categoria'', JStr ''anillos''), (''stock'', JNum 0), (''imagen'', JNull),
              (''nueva_coleccion'', JNull)])])),
    effects = [JwtVerify ''0.28800.admin.y3k-admin-0-28800'',
               Query INSERT_PRODUCTO
                 [JStr ''Anillo'', JNum 0, JStr ''anillos'', JNum 0, JUndefined, JUndefined]],
    store = empty_tables
      \<lparr>productos := [\<lparr>p_id = 1, p_nombre = JStr ''Anillo'', p_precio = JNum 0,
                        p_categoria = JStr ''anillos'', p_stock = JNum 0, p_imagen = JNull,
                        p_nueva_coleccion = JNull\<rparr>],
        productos_seq := 2\<rparr>\<rparr>"
proof -
  have accepted:
    "jwt_verify example_deps ''0.28800.admin.y3k-admin-0-28800'' (JWT_SECRET example_env)
       (now example_env) = Inr (JStr ''admin'')"
    using example_token_verifies by (simp add: example_deps_def example_env_def)
  have header: "header_token
     (bare_request\<lparr>authorization := Some ''Bearer 0.28800.admin.y3k-admin-0-28800'',
        body := [''nombre'' \<mapsto> JStr ''Anillo'', ''precio'' \<mapsto> JNum 0,
                 ''categoria'' \<mapsto> JStr ''anillos'', ''stock'' \<mapsto> JNum 0]\<rparr>)
     = Some ''0.28800.admin.y3k-admin-0-28800''"
    by (simp add: header_token_def)
  show ?thesis
    using zero_price_and_stock_accepted [of
      "bare_request\<lparr>authorization := Some ''Bearer 0.28800.admin.y3k-admin-0-28800'',
        body := [''nombre'' \<mapsto> JStr ''Anillo'', ''precio'' \<mapsto> JNum 0,
                 ''categoria'' \<mapsto> JStr ''anillos'', ''stock'' \<mapsto> JNum 0]\<rparr>"
      "''0.28800.admin.y3k-admin-0-28800''" example_deps example_env "JStr ''admin''"
      "''Anillo''" "''anillos''" empty_tables
      "\<lparr>rowCount = 1, rows = [producto_row \<lparr>p_id = 1, p_nombre = JStr ''Anillo'',
          p_precio = JNum 0, p_categoria = JStr ''anillos'', p_stock = JNum 0, p_imagen = JNull,
          p_nueva_coleccion = JNull\<rparr>]\<rparr>"
      "empty_tables
      \<lparr>productos := [\<lparr>p_id = 1, p_nombre = JStr ''Anillo'', p_precio = JNum 0,
                        p_categoria = JStr ''anillos'', p_stock = JNum 0, p_imagen = JNull,
                        p_nueva_coleccion = JNull\<rparr>],
        productos_seq := 2\<rparr>"]
      accepted header
    by (simp add: field_def example_deps_def empty_tables_def producto_row_def bare_request_def)
qed

text \<open>
  Claim C4, as stated, fails. The claim: a 500 response after a failed datastore or
  relay call carries a generic message only, the contact endpoint being the one
  exception. Here the database is out of reach, the query rejects, and
  \<^verbatim>\<open>GET /api/test\<close> answers 500 with the message of the driver's error in its body
  (line 244, \<^verbatim>\<open>error: err.message\<close>).
\<close>

theorem test_route_echoes_datastore_error:
  "app outage_deps example_env GET_test bare_request empty_tables =
     \<lparr>outcome = Responded 500 (Json (Obj
         [(''ok'', Val (JBool False)),
          (''error'', Val (JStr ''Connection terminated unexpectedly''))])),
      effects = [Query SELECT_NOW [], ConsoleError ''Connection terminated unexpectedly''],
      store = empty_tables\<rparr>"
  by (simp add: app_def get_test_def outage_deps_def)

text \<open>
  Claim C4, amended. For every handler that calls the datastore, when that call
  fails, the response is 500 and carries a fixed text that does not depend on the
  error, with exactly one exception: the connectivity probe \<^verbatim>\<open>GET /api/test\<close>, whose
  500 body carries the datastore's error message as \<^verbatim>\<open>error\<close>. (What the contact
  endpoint answers when the relay fails is not part of this statement.)
\<close>

theorem datastore_failure_responses:
  "(fst (pool_query d SELECT_PRODUCTOS [] db) = Inl m \<longrightarrow>
      outcome (handler d e GET_productos req db) =
        Responded 500 (error_body ''Error al obtener productos'')) \<and>
   (truthy (field req ''nombre'') \<and> \<not> eq_null (field req ''precio'') \<and>
    truthy (field req ''categoria'') \<and> \<not> eq_null (field req ''stock'') \<and>
    fst (pool_query d INSERT_PRODUCTO
           [field req ''nombre'', field req ''precio'', field req ''categoria'',
            field req ''stock'', field req ''imagen'', field req ''nueva_coleccion''] db) = Inl m \<longrightarrow>
      outcome (handler d e POST_productos req db) =
        Responded 500 (error_body ''Error al agregar producto'')) \<and>
   (truthy (field req ''nombre'') \<and> \<not> eq_null (field req ''precio'') \<and>
    truthy (field req ''categoria'') \<and> \<not> eq_null (field req ''stock'') \<and>
    fst (pool_query d UPDATE_PRODUCTO
           [field req ''nombre'', field req ''precio'', field req ''categoria'',
            field req ''stock'', field req ''imagen'', field req ''nueva_coleccion'',
            JStr (params_id req)] db) = Inl m \<longrightarrow>
      outcome (handler d e PUT_productos req db) =
        Responded 500 (error_body ''Error al actualizar producto'')) \<and>
   (fst (pool_query d DELETE_PRODUCTO [JStr (params_id req)] db) = Inl m \<longrightarrow>
      outcome (handler d e DELETE_productos req db) =
        Responded 500 (error_body ''Error al eliminar producto'')) \<and>
   (truthy (field req ''email'') \<and> email_test (field req ''email'') \<and>
    fst (pool_query d INSERT_SUSCRIPTOR [field req ''email''] db) = Inl m \<longrightarrow>
      outcome (handler d e POST_suscribirse req db) =
        Responded 500 (error_body ''Error al registrar la suscripcion'')) \<and>
   (fst (pool_query d SELECT_SUSCRIPTORES
           [JStr (''%'' @ (case query req ''search'' of None \<Rightarrow> [] | Some s \<Rightarrow> s) @ ''%''),
            (case query req ''limit'' of None \<Rightarrow> JNum 50 | Some s \<Rightarrow> JStr s),
            (case query req ''offset'' of None \<Rightarrow> JNum 0 | Some s \<Rightarrow> JStr s)] db) = Inl m \<longrightarrow>
      outcome (handler d e GET_suscriptores req db) =
        Responded 500 (error_body ''Error al obtener la lista de suscriptores'')) \<and>
   (fst (pool_query d DELETE_SUSCRIPTOR [JStr (params_id req)] db) = Inl m \<longrightarrow>
      outcome (handler d e DELETE_suscriptores req db) =
        Responded 500 (error_body ''Error al eliminar el suscriptor'')) \<and>
   (fst (pool_query d SELECT_NOW [] db) = Inl m \<longrightarrow>
      outcome (handler d e GET_test req db) =
        Responded 500 (Json (Obj [(''ok'', Val (JBool False)), (''error'', Val (JStr m))])))"
proof -
  have 1: "fst (pool_query d SELECT_PRODUCTOS [] db) = Inl m \<longrightarrow>
      outcome (handler d e GET_productos req db) =
        Responded 500 (error_body ''Error al obtener productos'')"
    by (auto simp: get_productos_def split: prod.splits sum.splits)
  have 2: "truthy (field req ''nombre'') \<and> \<not> eq_null (field req ''precio'') \<and>
    truthy (field req ''categoria'') \<and> \<not> eq_null (field req ''stock'') \<and>
    fst (pool_query d INSERT_PRODUCTO
           [field req ''nombre'', field req ''precio'', field req ''categoria'',
            field req ''stock'', field req ''imagen'', field req ''nueva_coleccion''] db) = Inl m \<longrightarrow>
      outcome (handler d e POST_productos req db) =
        Responded 500 (error_body ''Error al agregar producto'')"
    by (auto simp: post_productos_def Let_def split: prod.splits sum.splits)
  have 3: "truthy (field req ''nombre'') \<and> \<not> eq_null (field req ''precio'') \<and>
    truthy (field req ''categoria'') \<and> \<not> eq_null (field req ''stock'') \<and>
    fst (pool_query d UPDATE_PRODUCTO
           [field req ''nombre'', field req ''precio'', field req ''categoria'',
            field req ''stock'', field req ''imagen'', field req ''nueva_coleccion'',
            JStr (params_id req)] db) = Inl m \<longrightarrow>
      outcome (handler d e PUT_productos req db) =
        Responded 500 (error_body ''Error al actualizar producto'')"
    by (auto simp: put_productos_def Let_def split: prod.splits sum.splits)
  have 4: "fst (pool_query d DELETE_PRODUCTO [JStr (params_id req)] db) = Inl m \<longrightarrow>
      outcome (handler d e DELETE_productos req db) =
        Responded 500 (error_body ''Error al eliminar producto'')"
    by (auto simp: delete_productos_def split: prod.splits sum.splits)
  have 5: "truthy (field req ''email'') \<and> email_test (field req ''email'') \<and>
    fst (pool_query d INSERT_SUSCRIPTOR [field req ''email''] db) = Inl m \<longrightarrow>
      outcome (handler d e POST_suscribirse req db) =
        Responded 500 (error_body ''Error al registrar la suscripcion'')"
    by (auto simp: suscribirse_def Let_def split: prod.splits sum.splits)
  have 6: "fst (pool_query d SELECT_SUSCRIPTORES
           [JStr (''%'' @ (case query req ''search'' of None \<Rightarrow> [] | Some s \<Rightarrow> s) @ ''%''),
            (case query req ''limit'' of None \<Rightarrow> JNum 50 | Some s \<Rightarrow> JStr s),
            (case query req ''offset'' of None \<Rightarrow> JNum 0 | Some s \<Rightarrow> JStr s)] db) = Inl m \<longrightarrow>
      outcome (handler d e GET_suscriptores req db) =
        Responded 500 (error_body ''Error al obtener la lista de suscriptores'')"
    by (auto simp: get_suscriptores_def Let_def split: prod.splits sum.splits)
  have 7: "fst (pool_query d DELETE_SUSCRIPTOR [JStr (params_id req)] db) = Inl m \<longrightarrow>
      outcome (handler d e DELETE_suscriptores req db) =
        Responded 500 (error_body ''Error al eliminar el suscriptor'')"
    by (auto simp: delete_suscriptores_def split: prod.splits sum.splits)
  have 8: "fst (pool_query d SELECT_NOW [] db) = Inl m \<longrightarrow>
      outcome (handler d e GET_test req db) =
        Responded 500 (Json (Obj [(''ok'', Val (JBool False)), (''error'', Val (JStr m))]))"
    by (auto simp: get_test_def split: prod.splits sum.splits)
  from 1 2 3 4 5 6 7 8 show ?thesis by blast
qed

theorem datastore_failure_responses_witness:
  "outcome (handler outage_deps example_env GET_productos
      (bare_request\<lparr>body := [''nombre'' \<mapsto> JStr ''Anillo'', ''precio'' \<mapsto> JNum 10,
         ''categoria'' \<mapsto> JStr ''anillos'', ''stock'' \<mapsto> JNum 3,
         ''email'' \<mapsto> JStr ''ana@example.com'']\<rparr>) empty_tables) =
     Responded 500 (error_body ''Error al obtener productos'') \<and>
   outcome (handler outage_deps example_env POST_productos
      (bare_request\<lparr>body := [''nombre'' \<mapsto> JStr ''Anillo'', ''precio'' \<mapsto> JNum 10,
         ''categoria'' \<mapsto> JStr ''anillos'', ''stock'' \<mapsto> JNum 3,
         ''email'' \<mapsto> JStr ''ana@example.com'']\<rparr>) empty_tables) =
     Responded 500 (error_body ''Error al agregar producto'') \<and>
   outcome (handler outage_deps example_env PUT_productos
      (bare_request\<lparr>body := [''nombre'' \<mapsto> JStr ''Anillo'', ''precio'' \<mapsto> JNum 10,
         ''categoria'' \<mapsto> JStr ''anillos'', ''stock'' \<mapsto> JNum 3,
         ''email'' \<mapsto> JStr ''ana@example.com'']\<rparr>) empty_tables) =
     Responded 500 (error_body ''Error al actualizar producto'') \<and>
   outcome (handler outage_deps example_env DELETE_productos
      (bare_request\<lparr>body := [''nombre'' \<mapsto> JStr ''Anillo'', ''precio'' \<mapsto> JNum 10,
         ''categoria'' \<mapsto> JStr ''anillos'', ''stock'' \<mapsto> JNum 3,
         ''email'' \<mapsto> JStr ''ana@example.com'']\<rparr>) empty_tables) =
     Responded 500 (error_body ''Error al eliminar producto'') \<and>
   outcome (handler outage_deps example_env POST_suscribirse
      (bare_request\<lparr>body := [''nombre'' \<mapsto> JStr ''Anillo'', ''precio'' \<mapsto> JNum 10,
         ''categoria'' \<mapsto> JStr ''anillos'', ''stock'' \<mapsto> JNum 3,
         ''email'' \<mapsto> JStr ''ana@example.com'']\<rparr>) empty_tables) =
     Responded 500 (error_body ''Error al registrar la suscripcion'') \<and>
   outcome (handler outage_deps example_env GET_suscriptores
      (bare_request\<lparr>body := [''nombre'' \<mapsto> JStr ''Anillo'', ''precio'' \<mapsto> JNum 10,
         ''categoria'' \<mapsto> JStr ''anillos'', ''stock'' \<mapsto> JNum 3,
         ''email'' \<mapsto> JStr ''ana@example.com'']\<rparr>) empty_tables) =
     Responded 500 (error_body ''Error al obtener la lista de suscriptores'') \<and>
   outcome (handler outage_deps example_env DELETE_suscriptores
      (bare_request\<lparr>body := [''nombre'' \<mapsto> JStr ''Anillo'', ''precio'' \<mapsto> JNum 10,
         ''categoria'' \<mapsto> JStr ''anillos'', ''stock'' \<mapsto> JNum 3,
         ''email'' \<mapsto> JStr ''ana@example.com'']\<rparr>) empty_tables) =
     Responded 500 (error_body ''Error al eliminar el suscriptor'') \<and>
   outcome (handler outage_deps example_env GET_test
      (bare_request\<lparr>body := [''nombre'' \<mapsto> JStr ''Anillo'', ''precio'' \<mapsto> JNum 10,
         ''categoria'' \<mapsto> JStr ''anillos'', ''stock'' \<mapsto> JNum 3,
         ''email'' \<mapsto> JStr ''ana@example.com'']\<rparr>) empty_tables) =
     Responded 500 (Json (Obj
       [(''ok'', Val (JBool False)),
        (''error'', Val (JStr ''Connection terminated unexpectedly''))]))"
proof -
  have rejects: "\<And>s ps. fst (pool_query outage_deps s ps empty_tables) =
      Inl ''Connection terminated unexpectedly''"
    by (simp add: outage_deps_def)
  have valid: "email_regex ''ana@example.com''"
    by (simp add: email_regex_def plain_def is_space_def)
  from datastore_failure_responses [where d = outage_deps and db = empty_tables
      and m = "''Connection terminated unexpectedly''" and e = example_env
      and req = "bare_request\<lparr>body := [''nombre'' \<mapsto> JStr ''Anillo'', ''precio'' \<mapsto> JNum 10,
         ''categoria'' \<mapsto> JStr ''anillos'', ''stock'' \<mapsto> JNum 3,
         ''email'' \<mapsto> JStr ''ana@example.com'']\<rparr>"] rejects valid
  show ?thesis by (simp add: field_def)
qed

text \<open>
  The contact handler and the relay: the \<^verbatim>\<open>catch\<close> of line 271 answers an exception
  of the call with 500 and its message; a call that returns is answered 200
  whatever the returned object holds, since line 269 logs \<^verbatim>\<open>resultado\<close> and no line
  reads its \<^verbatim>\<open>error\<close>. So a message that the provider refused is reported to the
  client as sent.
\<close>

lemma contacto_after_send:
  assumes "truthy (field req ''nombre'')" and "truthy (field req ''email'')"
    and "truthy (field req ''mensaje'')"
  shows "fst (contacto send req) =
     (case send (field req ''nombre'') (field req ''email'') (field req ''mensaje'') of
        Inr resultado \<Rightarrow>
          Responded 200 (Json (Obj
            [(''success'', Val (JStr ''Mensaje enviado correctamente''))]))
      | Inl err \<Rightarrow>
          Responded 500 (Json (Obj
            [(''error'', Val (JStr ''No se pudo enviar el mensaje. Intenta mas tarde.'')),
             (''detalle'', Val (JStr err))])))"
  using assms by (simp add: contacto_def Let_def split: sum.splits)

lemma refused_message_reported_as_sent:
  "resend_send outage_deps (JStr ''Ana'') (JStr ''ana@example.com'') (JStr ''Hola'') =
     Inr (SendError ''API key is invalid'') \<and>
   app outage_deps example_env POST_contacto
     (bare_request\<lparr>body := [''nombre'' \<mapsto> JStr ''Ana'', ''email'' \<mapsto> JStr ''ana@example.com'',
        ''mensaje'' \<mapsto> JStr ''Hola'']\<rparr>) empty_tables =
     \<lparr>outcome = Responded 200 (Json (Obj
         [(''success'', Val (JStr ''Mensaje enviado correctamente''))])),
      effects = [MailSend (JStr ''Ana'') (JStr ''ana@example.com'') (JStr ''Hola''),
                 ConsoleLog ''RESEND RESPONSE''],
      store = empty_tables\<rparr>"
  by (simp add: app_def pure_handler_def contacto_def field_def outage_deps_def)

lemma delete_responses:
  assumes "q [JStr (params_id req)] db = (Inr r, db')"
  shows "outcome (delete_productos q req db) = Responded 204 NoBody"
    and "outcome (delete_suscriptores q req db) =
           (if rowCount r = 0 then Responded 404 (error_body ''Suscriptor no encontrado'')
            else Responded 200 (Json (Obj
                   [(''message'', Val (JStr ''Suscriptor eliminado correctamente''))])))"
  using assms by (simp_all add: delete_productos_def delete_suscriptores_def)

text \<open>
  Claim C3: an authenticated delete that names an id with no record is answered 404
  by both delete routes. The code at such a request: no product has the id 7, the
  DELETE statement reports \<^verbatim>\<open>rowCount\<close> 0, and \<^verbatim>\<open>DELETE /api/productos/7\<close> answers 204,
  since its handler never reads the result (line 163 to 164). The subscriber route,
  on the same store and with the same header, answers 404 (line 227).
\<close>

theorem delete_of_absent_producto_answers_204:
  "delete_producto [JStr ''7''] empty_tables = (Inr \<lparr>rowCount = 0, rows = []\<rparr>, empty_tables) \<and>
   app example_deps example_env DELETE_productos
     (bare_request\<lparr>authorization := Some ''Bearer 0.28800.admin.y3k-admin-0-28800''\<rparr>)
     empty_tables =
     \<lparr>outcome = Responded 204 NoBody,
      effects = [JwtVerify ''0.28800.admin.y3k-admin-0-28800'',
                 Query DELETE_PRODUCTO [JStr ''7'']],
      store = empty_tables\<rparr> \<and>
   app example_deps example_env DELETE_suscriptores
     (bare_request\<lparr>authorization := Some ''Bearer 0.28800.admin.y3k-admin-0-28800''\<rparr>)
     empty_tables =
     \<lparr>outcome = Responded 404 (error_body ''Suscriptor no encontrado''),
      effects = [JwtVerify ''0.28800.admin.y3k-admin-0-28800'',
                 Query DELETE_SUSCRIPTOR [JStr ''7'']],
      store = empty_tables\<rparr>"
  using example_token_verifies header_token_bearer_admin
  by (simp add: app_def guarded_def requireAuth_def example_deps_def example_env_def
      delete_productos_def delete_suscriptores_def bare_request_def nat_in_def digit_of_def
      empty_tables_def)

text \<open>The test of \<open>email_regex\<close> is the one of the regular expression: the text is
  a non-empty run of the class, then \<^verbatim>\<open>@\<close>, then a non-empty run, a dot and a non-empty
  run.\<close>

lemma plain_dot: "plain CHR ''.''"
  by (simp add: plain_def is_space_def)

lemma not_plain_at: "\<not> plain CHR ''@''"
  by (simp add: plain_def)

lemma inner_dot:
  "CHR ''.'' \<in> set (butlast (tl d)) \<longleftrightarrow>
   (\<exists>b c. d = b @ CHR ''.'' # c \<and> b \<noteq> [] \<and> c \<noteq> [])"
proof
  assume dot: "CHR ''.'' \<in> set (butlast (tl d))"
  then obtain m1 m2 where m: "butlast (tl d) = m1 @ CHR ''.'' # m2"
    by (auto dest: split_list)
  from dot have "tl d \<noteq> []" by auto
  then have d: "d = hd d # tl d" and t: "tl d = butlast (tl d) @ [last (tl d)]"
    by (cases d; simp)+
  have "d = (hd d # m1) @ CHR ''.'' # (m2 @ [last (tl d)])"
    by (subst d, subst t) (simp add: m)
  then show "\<exists>b c. d = b @ CHR ''.'' # c \<and> b \<noteq> [] \<and> c \<noteq> []"
    by blast
next
  assume "\<exists>b c. d = b @ CHR ''.'' # c \<and> b \<noteq> [] \<and> c \<noteq> []"
  then obtain b c where d: "d = b @ CHR ''.'' # c" and b: "b \<noteq> []" and c: "c \<noteq> []"
    by blast
  from b c have "butlast (tl d) = tl b @ CHR ''.'' # butlast c"
    by (simp add: d butlast_append)
  then show "CHR ''.'' \<in> set (butlast (tl d))"
    by simp
qed

lemma email_regex_shape:
  "email_regex s \<longleftrightarrow>
   (\<exists>a b c. s = a @ ''@'' @ b @ ''.'' @ c \<and> a \<noteq> [] \<and> b \<noteq> [] \<and> c \<noteq> [] \<and>
            list_all plain a \<and> list_all plain b \<and> list_all plain c)"
proof
  assume r: "email_regex s"
  then obtain d where a: "takeWhile plain s \<noteq> []" and rest: "dropWhile plain s = CHR ''@'' # d"
    and pd: "list_all plain d" and dot: "CHR ''.'' \<in> set (butlast (tl d))"
    by (auto simp: email_regex_def split: list.splits)
  from dot obtain b c where d: "d = b @ CHR ''.'' # c" and b: "b \<noteq> []" and c: "c \<noteq> []"
    by (auto simp: inner_dot)
  have "s = takeWhile plain s @ dropWhile plain s" by simp
  then have s: "s = takeWhile plain s @ ''@'' @ b @ ''.'' @ c"
    by (simp add: rest d)
  have pa: "list_all plain (takeWhile plain s)"
    by (simp add: list_all_iff) (metis set_takeWhileD)
  from pd have "list_all plain b" "list_all plain c"
    by (simp_all add: d)
  with s a b c pa show "\<exists>a b c. s = a @ ''@'' @ b @ ''.'' @ c \<and> a \<noteq> [] \<and> b \<noteq> [] \<and> c \<noteq> [] \<and>
            list_all plain a \<and> list_all plain b \<and> list_all plain c"
    by blast
next
  assume "\<exists>a b c. s = a @ ''@'' @ b @ ''.'' @ c \<and> a \<noteq> [] \<and> b \<noteq> [] \<and> c \<noteq> [] \<and>
            list_all plain a \<and> list_all plain b \<and> list_all plain c"
  then obtain a b c where s: "s = a @ CHR ''@'' # b @ CHR ''.'' # c"
    and ne: "a \<noteq> []" "b \<noteq> []" "c \<noteq> []"
    and p: "list_all plain a" "list_all plain b" "list_all plain c"
    by auto
  have tw: "takeWhile plain s = a"
    using p(1) by (simp add: s takeWhile_append2 list_all_iff not_plain_at)
  have dw: "dropWhile plain s = CHR ''@'' # b @ CHR ''.'' # c"
    using p(1) by (simp add: s dropWhile_append2 list_all_iff not_plain_at)
  have "CHR ''.'' \<in> set (butlast (tl (b @ CHR ''.'' # c)))"
    using ne by (subst inner_dot) blast
  then show "email_regex s"
    using ne p by (simp add: email_regex_def tw dw plain_dot)
qed

lemma email_regex_nonempty: "email_regex s \<Longrightarrow> s \<noteq> []"
  by (auto simp: email_regex_def)

text \<open>
  Claim C6. Two identical \<^verbatim>\<open>POST /api/suscribirse\<close> requests with the same valid email,
  one after the other, the email not being subscribed before the first: the first is
  answered 201, the second 200 with the already-subscribed message, and after both
  exactly one row of the table has that email. The statement is read as SQL over the
  table (\<^verbatim>\<open>ON CONFLICT (email) DO NOTHING\<close>); \<open>c1\<close> and \<open>c2\<close> are the times of the two
  calls.
\<close>

theorem subscribing_twice:
  assumes "field req ''email'' = JStr em" and "email_regex em"
    and "em \<notin> set (map s_email (suscriptores t))"
  shows "outcome (suscribirse (insert_suscriptor c1) req t) =
           Responded 201 (Json (Obj [(''message'', Val (JStr ''Gracias por suscribirte!''))])) \<and>
         outcome (suscribirse (insert_suscriptor c2) req
                    (store (suscribirse (insert_suscriptor c1) req t))) =
           Responded 200 (Json (Obj [(''message'', Val (JStr ''Ya estas suscrito''))])) \<and>
         length (filter (\<lambda>r. s_email r = em)
                   (suscriptores (store (suscribirse (insert_suscriptor c2) req
                      (store (suscribirse (insert_suscriptor c1) req t)))))) = 1"
proof -
  have valid: "truthy (JStr em)" "email_test (JStr em)"
    using assms(2) by (simp_all add: email_regex_nonempty)
  have absent: "filter (\<lambda>r. s_email r = em) (suscriptores t) = []"
    using assms(3) by (auto simp: filter_empty_conv)
  have first: "suscribirse (insert_suscriptor c1) req t =
      \<lparr>outcome = Responded 201 (Json (Obj [(''message'', Val (JStr ''Gracias por suscribirte!''))])),
       effects = [Query INSERT_SUSCRIPTOR [JStr em]],
       store = t\<lparr>suscriptores := suscriptores t @
                   [\<lparr>s_id = suscriptores_seq t, s_email = em, s_fecha = c1\<rparr>],
                 suscriptores_seq := suscriptores_seq t + 1\<rparr>\<rparr>"
    using assms(1,3) valid by (simp add: suscribirse_def Let_def)
  have second: "suscribirse (insert_suscriptor c2) req
        (t\<lparr>suscriptores := suscriptores t @
                   [\<lparr>s_id = suscriptores_seq t, s_email = em, s_fecha = c1\<rparr>],
           suscriptores_seq := suscriptores_seq t + 1\<rparr>) =
      \<lparr>outcome = Responded 200 (Json (Obj [(''message'', Val (JStr ''Ya estas suscrito''))])),
       effects = [Query INSERT_SUSCRIPTOR [JStr em]],
       store = t\<lparr>suscriptores := suscriptores t @
                   [\<lparr>s_id = suscriptores_seq t, s_email = em, s_fecha = c1\<rparr>],
                 suscriptores_seq := suscriptores_seq t + 1\<rparr>\<rparr>"
    using assms(1) valid by (simp add: suscribirse_def Let_def)
  show ?thesis
    by (simp add: first second absent)
qed


theorem subscribing_twice_witness:
  "email_regex ''ana@example.com'' \<and>
   outcome (suscribirse (insert_suscriptor 1700000000)
              (bare_request\<lparr>body := [''email'' \<mapsto> JStr ''ana@example.com'']\<rparr>) empty_tables) =
     Responded 201 (Json (Obj [(''message'', Val (JStr ''Gracias por suscribirte!''))])) \<and>
   outcome (suscribirse (insert_suscriptor 1700000060)
              (bare_request\<lparr>body := [''email'' \<mapsto> JStr ''ana@example.com'']\<rparr>)
              (store (suscribirse (insert_suscriptor 1700000000)
                 (bare_request\<lparr>body := [''email'' \<mapsto> JStr ''ana@example.com'']\<rparr>)
                 empty_tables))) =
     Responded 200 (Json (Obj [(''message'', Val (JStr ''Ya estas suscrito''))])) \<and>
   suscriptores (store (suscribirse (insert_suscriptor 1700000060)
              (bare_request\<lparr>body := [''email'' \<mapsto> JStr ''ana@example.com'']\<rparr>)
              (store (suscribirse (insert_suscriptor 1700000000)
                 (bare_request\<lparr>body := [''email'' \<mapsto> JStr ''ana@example.com'']\<rparr>)
                 empty_tables)))) =
     [\<lparr>s_id = 1, s_email = ''ana@example.com'', s_fecha = 1700000000\<rparr>]"
proof -
  have valid: "email_regex ''ana@example.com''"
    by (simp add: email_regex_def plain_def is_space_def)
  have member: "field (bare_request\<lparr>body := [''email'' \<mapsto> JStr ''ana@example.com'']\<rparr>) ''email''
      = JStr ''ana@example.com''"
    by (simp add: field_def)
  have fresh: "''ana@example.com'' \<notin> set (map s_email (suscriptores empty_tables))"
    by (simp add: empty_tables_def)
  have rows: "suscriptores (store (suscribirse (insert_suscriptor 1700000060)
              (bare_request\<lparr>body := [''email'' \<mapsto> JStr ''ana@example.com'']\<rparr>)
              (store (suscribirse (insert_suscriptor 1700000000)
                 (bare_request\<lparr>body := [''email'' \<mapsto> JStr ''ana@example.com'']\<rparr>)
                 empty_tables)))) =
     [\<lparr>s_id = 1, s_email = ''ana@example.com'', s_fecha = 1700000000\<rparr>]"
    using valid member by (simp add: suscribirse_def empty_tables_def Let_def)
  from subscribing_twice [OF member valid fresh, of 1700000000 1700000060] valid rows
  show ?thesis by simp
qed

section \<open>Properties of the datastore statements\<close>

lemma keys_ok_empty: "keys_ok empty_tables"
  by (simp add: keys_ok_def empty_tables_def)

lemma keys_ok_insert_producto: "keys_ok t \<Longrightarrow> keys_ok (snd (insert_producto ps t))"
proof (induction ps t rule: insert_producto.induct)
  case (1 n p c s i nc t)
  then show ?case
    by (auto simp: keys_ok_def Let_def list_all_iff)
qed simp_all

lemma keys_ok_delete_producto: "keys_ok t \<Longrightarrow> keys_ok (snd (delete_producto ps t))"
proof (induction ps t rule: delete_producto.induct)
  case (1 x t)
  then show ?case
    by (auto simp: keys_ok_def list_all_iff distinct_map_filter split: option.splits)
qed simp_all

lemma keys_ok_insert_suscriptor: "keys_ok t \<Longrightarrow> keys_ok (snd (insert_suscriptor c ps t))"
proof (induction c ps t rule: insert_suscriptor.induct)
  case (1 c e t)
  then show ?case
    by (auto simp: keys_ok_def Let_def list_all_iff)
qed simp_all

lemma keys_ok_delete_suscriptor: "keys_ok t \<Longrightarrow> keys_ok (snd (delete_suscriptor ps t))"
proof (induction ps t rule: delete_suscriptor.induct)
  case (1 x t)
  then show ?case
    by (auto simp: keys_ok_def list_all_iff distinct_map_filter split: option.splits)
qed simp_all

lemma insort_key_last:
  "f x < f r \<Longrightarrow> insort_key f x (ys @ [r]) = insort_key f x ys @ [r]"
  for f :: "'a \<Rightarrow> int"
  by (induction ys) auto

lemma sort_key_snoc:
  "list_all (\<lambda>x. f x < f r) xs \<Longrightarrow> sort_key f (xs @ [r]) = sort_key f xs @ [r]"
  for f :: "'a \<Rightarrow> int"
  by (induction xs) (auto simp: insort_key_last)

lemma strictly_descending:
  fixes f :: "'a \<Rightarrow> int"
  assumes "distinct (map f xs)"
  shows "sorted_wrt (\<lambda>a b. f b < f a) (rev (sort_key f xs))"
proof -
  have "sorted (map f (sort_key f xs))" by simp
  moreover have "distinct (map f (sort_key f xs))"
    using assms by (simp add: distinct_map)
  ultimately have "sorted_wrt (<) (map f (sort_key f xs))"
    by (simp add: strict_sorted_iff)
  then show ?thesis
    by (simp add: sorted_wrt_rev sorted_wrt_map)
qed

text \<open>
  Claim C10. For every state of the store (ids unique and below the next value of
  the sequence, as the key and the sequence of the table keep them),
  \<^verbatim>\<open>GET /api/productos\<close> answers 200 with the rows of the table, each once, in strictly
  descending order of id; and the item that an insert has just created, whose id is
  the next value of the sequence, is the first row of the next listing.
\<close>

theorem productos_listed_newest_first:
  assumes "keys_ok t"
  shows "outcome (get_productos select_productos req t) =
           Responded 200 (Json (Rows (map producto_row (rev (sort_key p_id (productos t)))))) \<and>
         set (rev (sort_key p_id (productos t))) = set (productos t) \<and>
         length (rev (sort_key p_id (productos t))) = length (productos t) \<and>
         sorted_wrt (\<lambda>a b. p_id b < p_id a) (rev (sort_key p_id (productos t))) \<and>
         fst (insert_producto [n, p, c, s, i, nc] t) =
           Inr \<lparr>rowCount = 1, rows = [producto_row
             \<lparr>p_id = productos_seq t, p_nombre = bind n, p_precio = bind p, p_categoria = bind c,
              p_stock = bind s, p_imagen = bind i, p_nueva_coleccion = bind nc\<rparr>]\<rparr> \<and>
         outcome (get_productos select_productos req'
                    (snd (insert_producto [n, p, c, s, i, nc] t))) =
           Responded 200 (Json (Rows
             (producto_row
                \<lparr>p_id = productos_seq t, p_nombre = bind n, p_precio = bind p,
                 p_categoria = bind c, p_stock = bind s, p_imagen = bind i,
                 p_nueva_coleccion = bind nc\<rparr> #
              map producto_row (rev (sort_key p_id (productos t))))))"
proof -
  from assms have d: "distinct (map p_id (productos t))"
    and b: "list_all (\<lambda>r. p_id r < productos_seq t) (productos t)"
    by (simp_all add: keys_ok_def)
  have sorted: "sorted_wrt (\<lambda>a b. p_id b < p_id a) (rev (sort_key p_id (productos t)))"
    using d by (rule strictly_descending)
  have snoc: "sort_key p_id (productos t @
      [\<lparr>p_id = productos_seq t, p_nombre = bind n, p_precio = bind p, p_categoria = bind c,
        p_stock = bind s, p_imagen = bind i, p_nueva_coleccion = bind nc\<rparr>]) =
     sort_key p_id (productos t) @
      [\<lparr>p_id = productos_seq t, p_nombre = bind n, p_precio = bind p, p_categoria = bind c,
        p_stock = bind s, p_imagen = bind i, p_nueva_coleccion = bind nc\<rparr>]"
    using b by (intro sort_key_snoc) simp
  show ?thesis
    using sorted by (simp add: get_productos_def select_productos_def Let_def snoc)
qed


theorem productos_listed_newest_first_witness:
  "keys_ok example_catalog \<and>
   outcome (get_productos select_productos bare_request example_catalog) =
     Responded 200 (Json (Rows
       [[(''id'', JNum 2), (''nombre'', JStr ''Collar''), (''precio'', JNum 25),
         (''categoria'', JStr ''collares''), (''stock'', JNum 1), (''imagen'', JNull),
         (''nueva_coleccion'', JBool True)],
        [(''id'', JNum 1), (''nombre'', JStr ''Anillo''), (''precio'', JNum 10),
         (''categoria'', JStr ''anillos''), (''stock'', JNum 3), (''imagen'', JNull),
         (''nueva_coleccion'', JBool False)]]))"
proof -
  have ok: "keys_ok example_catalog"
    by (simp add: keys_ok_def example_catalog_def empty_tables_def)
  have listed: "rev (sort_key p_id (productos example_catalog)) =
     [\<lparr>p_id = 2, p_nombre = JStr ''Collar'', p_precio = JNum 25,
       p_categoria = JStr ''collares'', p_stock = JNum 1, p_imagen = JNull,
       p_nueva_coleccion = JBool True\<rparr>,
      \<lparr>p_id = 1, p_nombre = JStr ''Anillo'', p_precio = JNum 10,
       p_categoria = JStr ''anillos'', p_stock = JNum 3, p_imagen = JNull,
       p_nueva_coleccion = JBool False\<rparr>]"
    by (simp add: example_catalog_def empty_tables_def)
  from productos_listed_newest_first [OF ok, of bare_request] ok listed
  show ?thesis by (simp add: producto_row_def)
qed

section \<open>Properties of the token codec\<close>

lemma verify_cases:
  "verify decode sign_with token secret clock =
     (case decode token of
        None \<Rightarrow> Inl ''InvalidTokenError''
      | Some t \<Rightarrow>
          if signature_matches sign_with secret t \<and> clock < expiresAt t
          then Inr (JStr (token_user t)) else Inl ''InvalidTokenError'')"
  by (simp add: verify_def split: option.splits)

lemma issued_token_matches:
  "k \<noteq> [] \<Longrightarrow>
   signature_matches sign_with (Some k)
     \<lparr>token_user = claim, issuedAt = t0, expiresAt = t0 + 8 * 3600,
      signature = sign_with k (claim, t0, t0 + 8 * 3600)\<rparr>"
  by (simp add: signature_matches_def)

text \<open>
  Claim C5. Token verification, as the middleware and \<^verbatim>\<open>/api/auth-check\<close> use it on
  the token of the header, fails with the invalid-token outcome if and only if the
  token is malformed, its signature does not match the secret of the process, or the
  current time is at or past the encoded expiry; both then answer 401 with
  \<^verbatim>\<open>Token invalido\<close>. In every other case it returns the embedded identity claim, which
  the middleware stores in \<^verbatim>\<open>req.user\<close> and the check returns with 200. The expiry of
  a token made by \<open>issue\<close> is the time of issue plus 8 hours: such a token verifies
  under the same secret exactly before that time.
\<close>

theorem verify_fails_exactly_when:
  assumes "header_token req = Some token" and "token \<noteq> []"
  shows "((verify decode sign_with token (JWT_SECRET e) (now e) = Inl ''InvalidTokenError'') =
            (decode token = None \<or>
             (\<exists>t. decode token = Some t \<and>
                  (\<not> signature_matches sign_with (JWT_SECRET e) t \<or> expiresAt t \<le> now e)))) \<and>
         (verify decode sign_with token (JWT_SECRET e) (now e) = Inl ''InvalidTokenError'' \<longrightarrow>
            fst (requireAuth (verify decode sign_with) e req) =
              Inl (Responded 401 (error_body ''Token invalido'')) \<and>
            fst (auth_check (verify decode sign_with) e req) =
              Responded 401 (error_body ''Token invalido'')) \<and>
         (verify decode sign_with token (JWT_SECRET e) (now e) \<noteq> Inl ''InvalidTokenError'' \<longrightarrow>
            (\<exists>t. decode token = Some t \<and>
                 verify decode sign_with token (JWT_SECRET e) (now e) = Inr (JStr (token_user t)) \<and>
                 fst (requireAuth (verify decode sign_with) e req) =
                   Inr (req\<lparr>user := JStr (token_user t)\<rparr>) \<and>
                 fst (auth_check (verify decode sign_with) e req) =
                   Responded 200 (Json (Obj [(''ok'', Val (JBool True)),
                                             (''user'', Val (JStr (token_user t)))])))) \<and>
         (\<forall>k claim t0 clock.
            k \<noteq> [] \<and>
            decode (encode \<lparr>token_user = claim, issuedAt = t0, expiresAt = t0 + 8 * 3600,
                             signature = sign_with k (claim, t0, t0 + 8 * 3600)\<rparr>) =
              Some \<lparr>token_user = claim, issuedAt = t0, expiresAt = t0 + 8 * 3600,
                    signature = sign_with k (claim, t0, t0 + 8 * 3600)\<rparr> \<longrightarrow>
            (\<exists>issued. issue encode sign_with claim (Some k) t0 = Inr issued \<and>
               verify decode sign_with issued (Some k) clock =
                 (if clock < t0 + 8 * 3600 then Inr (JStr claim)
                  else Inl ''InvalidTokenError'')))"
proof -
  have iff: "(verify decode sign_with token (JWT_SECRET e) (now e) = Inl ''InvalidTokenError'') =
            (decode token = None \<or>
             (\<exists>t. decode token = Some t \<and>
                  (\<not> signature_matches sign_with (JWT_SECRET e) t \<or> expiresAt t \<le> now e)))"
    by (auto simp: verify_cases split: option.splits)
  have invalid: "verify decode sign_with token (JWT_SECRET e) (now e) = Inl ''InvalidTokenError'' \<longrightarrow>
            fst (requireAuth (verify decode sign_with) e req) =
              Inl (Responded 401 (error_body ''Token invalido'')) \<and>
            fst (auth_check (verify decode sign_with) e req) =
              Responded 401 (error_body ''Token invalido'')"
    using assms by (simp add: requireAuth_def auth_check_def)
  have valid: "verify decode sign_with token (JWT_SECRET e) (now e) \<noteq> Inl ''InvalidTokenError'' \<longrightarrow>
            (\<exists>t. decode token = Some t \<and>
                 verify decode sign_with token (JWT_SECRET e) (now e) = Inr (JStr (token_user t)) \<and>
                 fst (requireAuth (verify decode sign_with) e req) =
                   Inr (req\<lparr>user := JStr (token_user t)\<rparr>) \<and>
                 fst (auth_check (verify decode sign_with) e req) =
                   Responded 200 (Json (Obj [(''ok'', Val (JBool True)),
                                             (''user'', Val (JStr (token_user t)))])))"
  proof
    assume ok: "verify decode sign_with token (JWT_SECRET e) (now e) \<noteq> Inl ''InvalidTokenError''"
    then obtain t where t: "decode token = Some t"
      and v: "verify decode sign_with token (JWT_SECRET e) (now e) = Inr (JStr (token_user t))"
      by (auto simp: verify_cases split: option.splits if_splits)
    from assms v have "fst (requireAuth (verify decode sign_with) e req) =
                   Inr (req\<lparr>user := JStr (token_user t)\<rparr>)"
      by (simp add: requireAuth_def)
    moreover from assms v have "fst (auth_check (verify decode sign_with) e req) =
                   Responded 200 (Json (Obj [(''ok'', Val (JBool True)),
                                             (''user'', Val (JStr (token_user t)))]))"
      by (simp add: auth_check_def)
    ultimately show "\<exists>t. decode token = Some t \<and>
                 verify decode sign_with token (JWT_SECRET e) (now e) = Inr (JStr (token_user t)) \<and>
                 fst (requireAuth (verify decode sign_with) e req) =
                   Inr (req\<lparr>user := JStr (token_user t)\<rparr>) \<and>
                 fst (auth_check (verify decode sign_with) e req) =
                   Responded 200 (Json (Obj [(''ok'', Val (JBool True)),
                                             (''user'', Val (JStr (token_user t)))]))"
      using t v by blast
  qed
  have issued: "\<forall>k claim t0 clock.
            k \<noteq> [] \<and>
            decode (encode \<lparr>token_user = claim, issuedAt = t0, expiresAt = t0 + 8 * 3600,
                             signature = sign_with k (claim, t0, t0 + 8 * 3600)\<rparr>) =
              Some \<lparr>token_user = claim, issuedAt = t0, expiresAt = t0 + 8 * 3600,
                    signature = sign_with k (claim, t0, t0 + 8 * 3600)\<rparr> \<longrightarrow>
            (\<exists>issued. issue encode sign_with claim (Some k) t0 = Inr issued \<and>
               verify decode sign_with issued (Some k) clock =
                 (if clock < t0 + 8 * 3600 then Inr (JStr claim)
                  else Inl ''InvalidTokenError''))"
    by (simp add: issue_def verify_cases issued_token_matches [simplified])
  from iff invalid valid issued show ?thesis by blast
qed

theorem verify_fails_exactly_when_witness:
  "issue example_encode example_mac ''admin'' (Some ''k3y'') 0 =
     Inr ''0.28800.admin.y3k-admin-0-28800'' \<and>
   verify example_decode example_mac ''0.28800.admin.y3k-admin-0-28800'' (Some ''k3y'') 28799 =
     Inr (JStr ''admin'') \<and>
   verify example_decode example_mac ''0.28800.admin.y3k-admin-0-28800'' (Some ''k3y'') 28800 =
     Inl ''InvalidTokenError'' \<and>
   fst (requireAuth (verify example_decode example_mac) example_env
     (bare_request\<lparr>authorization := Some ''Bearer 0.28800.admin.y3k-admin-0-28800''\<rparr>)) =
     Inr (bare_request\<lparr>authorization := Some ''Bearer 0.28800.admin.y3k-admin-0-28800'',
                       user := JStr ''admin''\<rparr>) \<and>
   fst (requireAuth (verify example_decode example_mac) (example_env\<lparr>now := 28800\<rparr>)
     (bare_request\<lparr>authorization := Some ''Bearer 0.28800.admin.y3k-admin-0-28800''\<rparr>)) =
     Inl (Responded 401 (error_body ''Token invalido''))"
proof -
  have roundtrip: "example_decode (example_encode
      \<lparr>token_user = ''admin'', issuedAt = 0, expiresAt = 0 + 8 * 3600,
       signature = example_mac ''k3y'' (''admin'', 0, 0 + 8 * 3600)\<rparr>) =
      Some \<lparr>token_user = ''admin'', issuedAt = 0, expiresAt = 0 + 8 * 3600,
       signature = example_mac ''k3y'' (''admin'', 0, 0 + 8 * 3600)\<rparr>"
    by (simp add: example_decode_def example_encode_def example_mac_def nat_in_def digit_of_def)
  have made: "issue example_encode example_mac ''admin'' (Some ''k3y'') 0 =
     Inr ''0.28800.admin.y3k-admin-0-28800''"
    by (simp add: issue_def example_encode_def example_mac_def)
  have decoded: "example_decode ''0.28800.admin.y3k-admin-0-28800'' =
      Some \<lparr>token_user = ''admin'', issuedAt = 0, expiresAt = 28800,
            signature = ''y3k-admin-0-28800''\<rparr>"
    by (simp add: example_decode_def nat_in_def digit_of_def)
  have matches: "signature_matches example_mac (Some ''k3y'')
      \<lparr>token_user = ''admin'', issuedAt = 0, expiresAt = 28800,
       signature = ''y3k-admin-0-28800''\<rparr>"
    by (simp add: signature_matches_def example_mac_def)
  have nonempty: "''0.28800.admin.y3k-admin-0-28800'' \<noteq> []"
    by simp
  have early: "verify example_decode example_mac ''0.28800.admin.y3k-admin-0-28800''
      (Some ''k3y'') 28799 = Inr (JStr ''admin'')"
    using decoded matches by (simp add: verify_cases)
  have late: "verify example_decode example_mac ''0.28800.admin.y3k-admin-0-28800''
      (Some ''k3y'') 28800 = Inl ''InvalidTokenError''"
    using decoded matches by (simp add: verify_cases)
  have accepted: "fst (requireAuth (verify example_decode example_mac) example_env
     (bare_request\<lparr>authorization := Some ''Bearer 0.28800.admin.y3k-admin-0-28800''\<rparr>)) =
     Inr (bare_request\<lparr>authorization := Some ''Bearer 0.28800.admin.y3k-admin-0-28800'',
                       user := JStr ''admin''\<rparr>)"
    using header_token_bearer_admin decoded matches
    by (simp add: requireAuth_def verify_cases example_env_def)
  have refused: "fst (requireAuth (verify example_decode example_mac) (example_env\<lparr>now := 28800\<rparr>)
     (bare_request\<lparr>authorization := Some ''Bearer 0.28800.admin.y3k-admin-0-28800''\<rparr>)) =
     Inl (Responded 401 (error_body ''Token invalido''))"
    using header_token_bearer_admin decoded matches
    by (simp add: requireAuth_def verify_cases example_env_def)
  from verify_fails_exactly_when [OF header_token_bearer_admin nonempty, of example_decode
      example_mac example_env example_encode] roundtrip made early late accepted refused
  show ?thesis by simp
qed

end
